theory Spec2Isabelle
  imports Complex_Main
begin

section \<open>Identifiers, mappings and errors\<close>

text \<open>
  The identifier types of \<^verbatim>\<open>k8s.io/apimachinery/pkg/runtime/schema\<close>: a type identifier
  (group, version, kind), a resource identifier (group, version, resource) and a group/kind
  pair. Go strings are byte strings; \<^typ>\<open>string\<close> is a list of bytes.
\<close>

record GroupVersionKind =
  gvkGroup :: string
  gvkVersion :: string
  Kind :: string

record GroupVersionResource =
  gvrGroup :: string
  gvrVersion :: string
  Resource :: string

record GroupKind =
  gkGroup :: string
  gkKind :: string

definition GroupKindOf :: "GroupVersionKind \<Rightarrow> GroupKind" where
  "GroupKindOf gvk = \<lparr>gkGroup = gvkGroup gvk, gkKind = Kind gvk\<rparr>"

datatype RESTScopeName = RESTScopeNameNamespace | RESTScopeNameRoot

text \<open>\<^verbatim>\<open>meta.RESTMapping\<close>: the resource, the type and the scope of one directory entry.\<close>

record RESTMapping =
  mappingResource :: GroupVersionResource
  mappingGroupVersionKind :: GroupVersionKind
  Scope :: RESTScopeName

text \<open>
  The errors that travel through this layer. \<open>NoKindMatchError\<close> and
  \<open>NoResourceMatchError\<close> are the two "not found" errors of the directory,
  \<open>AmbiguousResourceError\<close> is a directory error that is not "not found",
  \<open>ErrRateLimited\<close> is this package's own error (it carries the delay, in nanoseconds),
  and \<open>OtherError\<close> stands for every error of a collaborator.
\<close>

datatype error =
    NoKindMatchError GroupKind "string list"
  | NoResourceMatchError GroupVersionResource
  | AmbiguousResourceError GroupVersionResource
  | ErrRateLimited int
  | OtherError string

fun isNotFound :: "error \<Rightarrow> bool" where
  "isNotFound (NoKindMatchError gk vs) = True"
| "isNotFound (NoResourceMatchError r) = True"
| "isNotFound (AmbiguousResourceError r) = False"
| "isNotFound (ErrRateLimited d) = False"
| "isNotFound (OtherError s) = False"

text \<open>
  A Go result pair \<^verbatim>\<open>(value, error)\<close> is a sum: \<open>Inl\<close> the error, \<open>Inr\<close> the value. A
  call can also end in a run-time panic (a method called on a nil interface value).
\<close>

datatype 'a outcome = Return 'a | Panic

fun errOf :: "error + 'a \<Rightarrow> error option" where
  "errOf (Inl e) = Some e"
| "errOf (Inr v) = None"

subsection \<open>\<^verbatim>\<open>errors.As\<close>\<close>

text \<open>
  \<^verbatim>\<open>errors.As(err, target)\<close> of the Go standard library reports whether the dynamic type of
  \<^verbatim>\<open>err\<close> is assignable to the type \<^verbatim>\<open>target\<close> points to; a nil error never matches. None
  of the errors above wraps another error or has an \<^verbatim>\<open>As\<close> method, so the chain that
  \<^verbatim>\<open>errors.As\<close> walks has one element. Every error value is assignable to the interface
  type \<^verbatim>\<open>error\<close>; a concrete type is assignable only to itself.
\<close>

datatype goType =
    errorInterface
  | ptrNoKindMatchError
  | ptrNoResourceMatchError
  | ptrAmbiguousResourceError
  | valErrRateLimited
  | otherErrorType

fun TypeOf :: "error \<Rightarrow> goType" where
  "TypeOf (NoKindMatchError gk vs) = ptrNoKindMatchError"
| "TypeOf (NoResourceMatchError r) = ptrNoResourceMatchError"
| "TypeOf (AmbiguousResourceError r) = ptrAmbiguousResourceError"
| "TypeOf (ErrRateLimited d) = valErrRateLimited"
| "TypeOf (OtherError s) = otherErrorType"

definition AssignableTo :: "goType \<Rightarrow> goType \<Rightarrow> bool" where
  "AssignableTo t targetType = (targetType = errorInterface \<or> t = targetType)"

definition errorsAs :: "error option \<Rightarrow> goType \<Rightarrow> bool" where
  "errorsAs err targetType =
     (case err of None \<Rightarrow> False | Some e \<Rightarrow> AssignableTo (TypeOf e) targetType)"

text \<open>
  \<^verbatim>\<open>DelayIfRateLimited\<close>: the target \<^verbatim>\<open>&rlerr\<close> points to a variable of the concrete type
  \<^verbatim>\<open>ErrRateLimited\<close>.
\<close>

definition DelayIfRateLimited :: "error option \<Rightarrow> int \<times> bool" where
  "DelayIfRateLimited err =
     (if errorsAs err valErrRateLimited
      then (case err of Some (ErrRateLimited d) \<Rightarrow> (d, True) | _ \<Rightarrow> (0, False))
      else (0, False))"

section \<open>The directory snapshot\<close>

text \<open>
  \<^verbatim>\<open>meta.RESTMapper\<close> is an interface of seven query methods; a snapshot is one value of
  it. The snapshot is immutable, so each method is a function of its arguments.
\<close>

record RESTMapper =
  mKindFor :: "GroupVersionResource \<Rightarrow> error + GroupVersionKind"
  mKindsFor :: "GroupVersionResource \<Rightarrow> error + GroupVersionKind list"
  mResourceFor :: "GroupVersionResource \<Rightarrow> error + GroupVersionResource"
  mResourcesFor :: "GroupVersionResource \<Rightarrow> error + GroupVersionResource list"
  mRESTMapping :: "GroupKind \<Rightarrow> string list \<Rightarrow> error + RESTMapping"
  mRESTMappings :: "GroupKind \<Rightarrow> string list \<Rightarrow> error + RESTMapping list"
  mResourceSingularizer :: "string \<Rightarrow> error + string"

section \<open>The rate gate\<close>

text \<open>
  Modelled from the spec: \<^verbatim>\<open>rate.Limiter\<close> of \<^verbatim>\<open>golang.org/x/time/rate\<close>, whose
  \<^verbatim>\<open>Reserve\<close>, \<^verbatim>\<open>Delay\<close> and \<^verbatim>\<open>Cancel\<close> the source calls, is not among the source files.
  It is a token bucket with capacity \<open>burst\<close> and refill rate \<open>limit\<close> tokens per second.
  Times and durations are nanoseconds; the bucket's level is a rational number of tokens.
  A reservation takes one token (the level may go below zero) and records when that
  token is there; cancelling a reservation that has not come due gives the token back.
\<close>

record Limiter =
  limit :: rat
  burst :: nat
  tokens :: rat
  lastUpdate :: int

record Reservation =
  timeToAct :: int

definition NewLimiter :: "rat \<Rightarrow> nat \<Rightarrow> Limiter" where
  "NewLimiter r b = \<lparr>limit = r, burst = b, tokens = of_nat b, lastUpdate = 0\<rparr>"

definition advance :: "Limiter \<Rightarrow> int \<Rightarrow> rat" where
  "advance b t =
     min (of_nat (burst b))
         (tokens b + limit b * of_int (max 0 (t - lastUpdate b)) / 1000000000)"

definition durationFromTokens :: "rat \<Rightarrow> rat \<Rightarrow> int" where
  "durationFromTokens r n = \<lceil>n / r * 1000000000\<rceil>"

definition Reserve :: "Limiter \<Rightarrow> int \<Rightarrow> Reservation \<times> Limiter" where
  "Reserve b t =
     (let n = advance b t - 1;
          waitDuration = (if n < 0 then durationFromTokens (limit b) (- n) else 0)
      in (\<lparr>timeToAct = t + waitDuration\<rparr>, b\<lparr>tokens := n, lastUpdate := t\<rparr>))"

definition Delay :: "Reservation \<Rightarrow> int \<Rightarrow> int" where
  "Delay r t = max 0 (timeToAct r - t)"

definition Cancel :: "Reservation \<Rightarrow> int \<Rightarrow> Limiter \<Rightarrow> Limiter" where
  "Cancel r t b =
     (if timeToAct r < t then b
      else b\<lparr>tokens := min (of_nat (burst b)) (advance b t + 1), lastUpdate := t\<rparr>)"

text \<open>
  \<^verbatim>\<open>dynamicLimiter.checkRate\<close>. The clock reading \<open>t\<close> is \<^verbatim>\<open>time.Now()\<close>; the call is
  taken to be instantaneous, so the library's clock reads within one call agree.
\<close>

definition checkRate :: "int \<Rightarrow> Limiter \<Rightarrow> error option \<times> Limiter" where
  "checkRate t b =
     (let (res, b1) = Reserve b t in
      if Delay res t = 0 then (None, b1)
      else (let b2 = Cancel res t b1 in (Some (ErrRateLimited (Delay res t)), b2)))"

section \<open>The dynamic mapper\<close>

text \<open>
  The events a caller can observe from outside: the operations on the mapper's
  reader-writer lock \<^verbatim>\<open>mu\<close>, a consultation of the rate gate and a call of the directory
  source \<^verbatim>\<open>newMapper\<close>. The cache below adds its own lock, the transport-handle
  constructor and the mapping lookup.
\<close>

datatype event =
    RLock | RUnlock | Lock | Unlock
  | CheckRate
  | NewMapper
  | RESTClientForGVKCall GroupVersionKind
  | RESTMappingCall GroupKind "string list"

text \<open>
  \<^verbatim>\<open>dynamicRESTMapper\<close>. \<open>staticMapper\<close> is an interface value and can be nil (\<open>None\<close>).
  The directory source \<open>newMapper\<close> is a collaborator: \<open>newMapper k\<close> is what its call
  number \<open>k\<close> returns. \<open>initOnce\<close> is the done flag of the \<^verbatim>\<open>sync.Once\<close>. \<open>now\<close> is the
  clock, and \<open>trace\<close> records the events so far, oldest first.
\<close>

record dynamicRESTMapper =
  staticMapper :: "RESTMapper option"
  limiter :: Limiter
  newMapper :: "nat \<Rightarrow> error + RESTMapper"
  lazy :: bool
  initOnce :: bool
  now :: int
  trace :: "event list"

definition emit :: "event \<Rightarrow> dynamicRESTMapper \<Rightarrow> dynamicRESTMapper" where
  "emit e drm = drm\<lparr>trace := trace drm @ [e]\<rparr>"

definition fetches :: "dynamicRESTMapper \<Rightarrow> nat" where
  "fetches drm = count_list (trace drm) NewMapper"

definition setStaticMapper :: "dynamicRESTMapper \<Rightarrow> error option \<times> dynamicRESTMapper" where
  "setStaticMapper drm =
     (case newMapper drm (fetches drm) of
        Inl err \<Rightarrow> (Some err, emit NewMapper drm)
      | Inr m \<Rightarrow> (None, (emit NewMapper drm)\<lparr>staticMapper := Some m\<rparr>))"

definition init :: "dynamicRESTMapper \<Rightarrow> error option \<times> dynamicRESTMapper" where
  "init drm =
     (if initOnce drm then (None, drm)
      else (let drm1 = drm\<lparr>initOnce := True\<rparr> in
            if lazy drm1 then setStaticMapper drm1 else (None, drm1)))"

text \<open>
  The closures passed to \<^verbatim>\<open>checkAndReload\<close> call one method of \<^verbatim>\<open>drm.staticMapper\<close>; on a
  nil \<open>staticMapper\<close> that call panics.
\<close>

definition callStatic ::
  "(RESTMapper \<Rightarrow> error + 'a) \<Rightarrow> dynamicRESTMapper \<Rightarrow> (error + 'a) outcome" where
  "callStatic f drm = (case staticMapper drm of None \<Rightarrow> Panic | Some m \<Rightarrow> Return (f m))"

text \<open>
  \<^verbatim>\<open>checkAndReload\<close>. The parameter \<^verbatim>\<open>needsReloadErr\<close> has the static type \<^verbatim>\<open>error\<close>, so
  the target \<^verbatim>\<open>&needsReloadErr\<close> of both \<^verbatim>\<open>errors.As\<close> calls points to a variable of the
  interface type \<^verbatim>\<open>error\<close>, whatever value the caller passed. The deferred unlocks run on
  every exit, also on a panic.
\<close>

definition checkAndReload ::
  "error \<Rightarrow> (RESTMapper \<Rightarrow> error + 'a) \<Rightarrow> dynamicRESTMapper
     \<Rightarrow> (error + 'a) outcome \<times> dynamicRESTMapper" where
  "checkAndReload needsReloadErr checkNeedsReload drm =
     (let d1 = emit RLock drm;
          r1 = callStatic checkNeedsReload d1;
          d2 = emit RUnlock d1
      in case r1 of
           Panic \<Rightarrow> (Panic, d2)
         | Return err \<Rightarrow>
             if \<not> errorsAs (errOf err) errorInterface then (Return err, d2)
             else
               (let d3 = emit Lock d2 in
                case callStatic checkNeedsReload d3 of
                  Panic \<Rightarrow> (Panic, emit Unlock d3)
                | Return err2 \<Rightarrow>
                    if \<not> errorsAs (errOf err2) errorInterface
                    then (Return err2, emit Unlock d3)
                    else
                      (let d4 = emit CheckRate d3 in
                       case checkRate (now d4) (limiter d4) of
                         (Some e, b) \<Rightarrow> (Return (Inl e), emit Unlock (d4\<lparr>limiter := b\<rparr>))
                       | (None, b) \<Rightarrow>
                           (case setStaticMapper (d4\<lparr>limiter := b\<rparr>) of
                              (Some e, d5) \<Rightarrow> (Return (Inl e), emit Unlock d5)
                            | (None, d5) \<Rightarrow>
                                (callStatic checkNeedsReload d5, emit Unlock d5)))))"

text \<open>
  The seven lookup operations. Each runs the lazy initializer and then
  \<^verbatim>\<open>checkAndReload\<close> with a closure over one method of the snapshot. The first argument
  of \<^verbatim>\<open>checkAndReload\<close> is the zero value of the error type the caller names. The method
  \<^verbatim>\<open>RESTMapping\<close> is \<open>RESTMappingFor\<close> here, since the record of that name is the mapping.
\<close>

definition zeroGVR :: GroupVersionResource where
  "zeroGVR = \<lparr>gvrGroup = [], gvrVersion = [], Resource = []\<rparr>"

definition zeroGK :: GroupKind where
  "zeroGK = \<lparr>gkGroup = [], gkKind = []\<rparr>"

definition KindFor ::
  "GroupVersionResource \<Rightarrow> dynamicRESTMapper
     \<Rightarrow> (error + GroupVersionKind) outcome \<times> dynamicRESTMapper" where
  "KindFor resource drm =
     (case init drm of
        (Some err, d) \<Rightarrow> (Return (Inl err), d)
      | (None, d) \<Rightarrow>
          checkAndReload (NoResourceMatchError zeroGVR) (\<lambda>m. mKindFor m resource) d)"

definition KindsFor ::
  "GroupVersionResource \<Rightarrow> dynamicRESTMapper
     \<Rightarrow> (error + GroupVersionKind list) outcome \<times> dynamicRESTMapper" where
  "KindsFor resource drm =
     (case init drm of
        (Some err, d) \<Rightarrow> (Return (Inl err), d)
      | (None, d) \<Rightarrow>
          checkAndReload (NoResourceMatchError zeroGVR) (\<lambda>m. mKindsFor m resource) d)"

definition ResourceFor ::
  "GroupVersionResource \<Rightarrow> dynamicRESTMapper
     \<Rightarrow> (error + GroupVersionResource) outcome \<times> dynamicRESTMapper" where
  "ResourceFor input drm =
     (case init drm of
        (Some err, d) \<Rightarrow> (Return (Inl err), d)
      | (None, d) \<Rightarrow>
          checkAndReload (NoResourceMatchError zeroGVR) (\<lambda>m. mResourceFor m input) d)"

definition ResourcesFor ::
  "GroupVersionResource \<Rightarrow> dynamicRESTMapper
     \<Rightarrow> (error + GroupVersionResource list) outcome \<times> dynamicRESTMapper" where
  "ResourcesFor input drm =
     (case init drm of
        (Some err, d) \<Rightarrow> (Return (Inl err), d)
      | (None, d) \<Rightarrow>
          checkAndReload (NoResourceMatchError zeroGVR) (\<lambda>m. mResourcesFor m input) d)"

definition RESTMappingFor ::
  "GroupKind \<Rightarrow> string list \<Rightarrow> dynamicRESTMapper
     \<Rightarrow> (error + RESTMapping) outcome \<times> dynamicRESTMapper" where
  "RESTMappingFor gk versions drm =
     (case init drm of
        (Some err, d) \<Rightarrow> (Return (Inl err), d)
      | (None, d) \<Rightarrow>
          checkAndReload (NoKindMatchError zeroGK []) (\<lambda>m. mRESTMapping m gk versions) d)"

definition RESTMappings ::
  "GroupKind \<Rightarrow> string list \<Rightarrow> dynamicRESTMapper
     \<Rightarrow> (error + RESTMapping list) outcome \<times> dynamicRESTMapper" where
  "RESTMappings gk versions drm =
     (case init drm of
        (Some err, d) \<Rightarrow> (Return (Inl err), d)
      | (None, d) \<Rightarrow>
          checkAndReload (NoKindMatchError zeroGK []) (\<lambda>m. mRESTMappings m gk versions) d)"

definition ResourceSingularizer ::
  "string \<Rightarrow> dynamicRESTMapper \<Rightarrow> (error + string) outcome \<times> dynamicRESTMapper" where
  "ResourceSingularizer resource drm =
     (case init drm of
        (Some err, d) \<Rightarrow> (Return (Inl err), d)
      | (None, d) \<Rightarrow>
          checkAndReload (NoResourceMatchError zeroGVR)
            (\<lambda>m. mResourceSingularizer m resource) d)"

text \<open>
  To state a property of every lookup operation at once: a query names an operation with
  its arguments, \<open>ask\<close> evaluates it against one snapshot, and \<open>lookup\<close> runs the
  operation of the mapper.
\<close>

datatype query =
    QKindFor GroupVersionResource
  | QKindsFor GroupVersionResource
  | QResourceFor GroupVersionResource
  | QResourcesFor GroupVersionResource
  | QRESTMapping GroupKind "string list"
  | QRESTMappings GroupKind "string list"
  | QResourceSingularizer string

datatype answer =
    AKind GroupVersionKind
  | AKinds "GroupVersionKind list"
  | AResource GroupVersionResource
  | AResources "GroupVersionResource list"
  | AMapping RESTMapping
  | AMappings "RESTMapping list"
  | ASingular string

fun ask :: "RESTMapper \<Rightarrow> query \<Rightarrow> error + answer" where
  "ask m (QKindFor r) = map_sum id AKind (mKindFor m r)"
| "ask m (QKindsFor r) = map_sum id AKinds (mKindsFor m r)"
| "ask m (QResourceFor r) = map_sum id AResource (mResourceFor m r)"
| "ask m (QResourcesFor r) = map_sum id AResources (mResourcesFor m r)"
| "ask m (QRESTMapping gk vs) = map_sum id AMapping (mRESTMapping m gk vs)"
| "ask m (QRESTMappings gk vs) = map_sum id AMappings (mRESTMappings m gk vs)"
| "ask m (QResourceSingularizer s) = map_sum id ASingular (mResourceSingularizer m s)"

definition tagged ::
  "('a \<Rightarrow> answer) \<Rightarrow> (error + 'a) outcome \<times> dynamicRESTMapper
     \<Rightarrow> (error + answer) outcome \<times> dynamicRESTMapper" where
  "tagged g p = (map_outcome (map_sum id g) (fst p), snd p)"

fun lookup ::
  "query \<Rightarrow> dynamicRESTMapper \<Rightarrow> (error + answer) outcome \<times> dynamicRESTMapper" where
  "lookup (QKindFor r) drm = tagged AKind (KindFor r drm)"
| "lookup (QKindsFor r) drm = tagged AKinds (KindsFor r drm)"
| "lookup (QResourceFor r) drm = tagged AResource (ResourceFor r drm)"
| "lookup (QResourcesFor r) drm = tagged AResources (ResourcesFor r drm)"
| "lookup (QRESTMapping gk vs) drm = tagged AMapping (RESTMappingFor gk vs drm)"
| "lookup (QRESTMappings gk vs) drm = tagged AMappings (RESTMappings gk vs drm)"
| "lookup (QResourceSingularizer s) drm = tagged ASingular (ResourceSingularizer s drm)"

text \<open>
  \<^verbatim>\<open>NewDynamicRESTMapper\<close>. \<open>clientErr\<close> is the error of building the discovery client,
  if any, and \<open>discovery\<close> the results of the successive calls of the default directory
  source. The three options set one field each and never fail.
\<close>

datatype DynamicRESTMapperOption =
    WithLimiter Limiter
  | WithLazyDiscovery
  | WithCustomMapper "nat \<Rightarrow> error + RESTMapper"

fun applyOption :: "DynamicRESTMapperOption \<Rightarrow> dynamicRESTMapper \<Rightarrow> dynamicRESTMapper" where
  "applyOption (WithLimiter l) drm = drm\<lparr>limiter := l\<rparr>"
| "applyOption WithLazyDiscovery drm = drm\<lparr>lazy := True\<rparr>"
| "applyOption (WithCustomMapper f) drm = drm\<lparr>newMapper := f\<rparr>"

definition defaultRefillRate :: rat where
  "defaultRefillRate = 5"

definition defaultLimitSize :: nat where
  "defaultLimitSize = 5"

definition NewDynamicRESTMapper ::
  "error option \<Rightarrow> (nat \<Rightarrow> error + RESTMapper) \<Rightarrow> DynamicRESTMapperOption list \<Rightarrow> int
     \<Rightarrow> error + dynamicRESTMapper" where
  "NewDynamicRESTMapper clientErr discovery opts t =
     (case clientErr of
        Some err \<Rightarrow> Inl err
      | None \<Rightarrow>
          (let drm = fold applyOption opts
                 \<lparr>staticMapper = None,
                  limiter = NewLimiter defaultRefillRate defaultLimitSize,
                  newMapper = discovery, lazy = False, initOnce = False,
                  now = t, trace = []\<rparr>
           in if \<not> lazy drm
              then (case setStaticMapper drm of
                      (Some err, d) \<Rightarrow> Inl err
                    | (None, d) \<Rightarrow> Inr d)
              else Inr drm))"

section \<open>The type-resource cache\<close>

text \<open>
  The collaborators of \<^verbatim>\<open>clientCache\<close>. A \<^verbatim>\<open>runtime.Object\<close> is known here by its Go type
  and by whether it is list-shaped (\<^verbatim>\<open>meta.IsListType\<close>: it has an \<^verbatim>\<open>Items\<close> field). The
  connection configuration and the codec factory are opaque and passed through. A transport
  handle (\<^verbatim>\<open>rest.Interface\<close>) is bound to the type identifier and the configuration it was
  built for.
\<close>

record Object =
  objType :: string
  hasItems :: bool

datatype Config = Config string

datatype CodecFactory = CodecFactory

datatype restInterface = RESTClient GroupVersionKind Config

type_synonym Scheme = "string \<Rightarrow> error + GroupVersionKind"

type_synonym constructor =
  "GroupVersionKind \<Rightarrow> Config \<Rightarrow> CodecFactory \<Rightarrow> error + restInterface"

definition IsListType :: "Object \<Rightarrow> bool" where
  "IsListType obj = hasItems obj"

text \<open>
  Modelled from the spec: \<^verbatim>\<open>apiutil.GVKForObject\<close> is not among the source files. It
  derives the value's type identifier from its runtime type through the scheme, or fails.
\<close>

definition GVKForObject :: "Object \<Rightarrow> Scheme \<Rightarrow> error + GroupVersionKind" where
  "GVKForObject obj s = s (objType obj)"

text \<open>\<^verbatim>\<open>resourceMeta\<close>: the transport handle, the type identifier and the mapping.\<close>

record resourceMeta =
  Interface :: restInterface
  rmGvk :: GroupVersionKind
  rmMapping :: RESTMapping

definition isNamespaced :: "resourceMeta \<Rightarrow> bool" where
  "isNamespaced r = (Scope (rmMapping r) \<noteq> RESTScopeNameRoot)"

definition resource :: "resourceMeta \<Rightarrow> string" where
  "resource r = Resource (mappingResource (rmMapping r))"

text \<open>
  \<^verbatim>\<open>clientCache\<close>. The mapper is the dynamic mapper above. \<open>ctrace\<close> records, oldest
  first, the operations on the cache's lock \<^verbatim>\<open>mu\<close> and the calls of the transport-handle
  constructor and of the mapper's mapping lookup.
\<close>

record clientCache =
  config :: Config
  scheme :: Scheme
  mapper :: dynamicRESTMapper
  codecs :: CodecFactory
  resourceByType :: "GroupVersionKind \<rightharpoonup> resourceMeta"
  ctrace :: "event list"

definition cemit :: "event \<Rightarrow> clientCache \<Rightarrow> clientCache" where
  "cemit e c = c\<lparr>ctrace := ctrace c @ [e]\<rparr>"

text \<open>\<^verbatim>\<open>strings.HasSuffix\<close>.\<close>

definition HasSuffix :: "string \<Rightarrow> string \<Rightarrow> bool" where
  "HasSuffix s suffix =
     (length suffix \<le> length s \<and> drop (length s - length suffix) s = suffix)"

text \<open>
  \<^verbatim>\<open>newResource\<close>. The constructor \<^verbatim>\<open>apiutil.RESTClientForGVK\<close> is not among the source
  files; it is the parameter \<open>RESTClientForGVK\<close>.
\<close>

definition newResource ::
  "constructor \<Rightarrow> GroupVersionKind \<Rightarrow> bool \<Rightarrow> clientCache
     \<Rightarrow> (error + resourceMeta) outcome \<times> clientCache" where
  "newResource RESTClientForGVK gvk isList c =
     (let gvk1 = (if HasSuffix (Kind gvk) ''List'' \<and> isList
                  then gvk\<lparr>Kind := take (length (Kind gvk) - 4) (Kind gvk)\<rparr>
                  else gvk);
          c1 = cemit (RESTClientForGVKCall gvk1) c
      in case RESTClientForGVK gvk1 (config c1) (codecs c1) of
           Inl err \<Rightarrow> (Return (Inl err), c1)
         | Inr client \<Rightarrow>
             (let c2 = cemit (RESTMappingCall (GroupKindOf gvk1) [gvkVersion gvk1]) c1
              in case RESTMappingFor (GroupKindOf gvk1) [gvkVersion gvk1] (mapper c2) of
                   (Panic, d) \<Rightarrow> (Panic, c2\<lparr>mapper := d\<rparr>)
                 | (Return (Inl err), d) \<Rightarrow> (Return (Inl err), c2\<lparr>mapper := d\<rparr>)
                 | (Return (Inr mapping), d) \<Rightarrow>
                     (Return (Inr \<lparr>Interface = client, rmGvk = gvk1, rmMapping = mapping\<rparr>),
                      c2\<lparr>mapper := d\<rparr>)))"

text \<open>
  The type identifier \<^verbatim>\<open>newResource\<close> works with after its first statement, for stating
  what the function does.
\<close>

definition itemGVK :: "GroupVersionKind \<Rightarrow> bool \<Rightarrow> GroupVersionKind" where
  "itemGVK gvk isList =
     (if HasSuffix (Kind gvk) ''List'' \<and> isList
      then gvk\<lparr>Kind := take (length (Kind gvk) - 4) (Kind gvk)\<rparr>
      else gvk)"

text \<open>
  \<^verbatim>\<open>getResource\<close>. Its second half, from \<^verbatim>\<open>c.mu.Lock()\<close> to the end, is \<open>getResourceMiss\<close>,
  so that it can also be run on a table that another caller has filled since the lookup
  under the shared lock. The deferred \<^verbatim>\<open>Unlock\<close> runs on every exit.
\<close>

definition getResourceMiss ::
  "constructor \<Rightarrow> Object \<Rightarrow> GroupVersionKind \<Rightarrow> clientCache
     \<Rightarrow> (error + resourceMeta) outcome \<times> clientCache" where
  "getResourceMiss RESTClientForGVK obj gvk c =
     (let c1 = cemit Lock c
      in case newResource RESTClientForGVK gvk (IsListType obj) c1 of
           (Panic, c2) \<Rightarrow> (Panic, cemit Unlock c2)
         | (Return (Inl err), c2) \<Rightarrow> (Return (Inl err), cemit Unlock c2)
         | (Return (Inr r), c2) \<Rightarrow>
             (Return (Inr r),
              cemit Unlock (c2\<lparr>resourceByType := (resourceByType c2)(gvk \<mapsto> r)\<rparr>)))"

definition getResource ::
  "constructor \<Rightarrow> Object \<Rightarrow> clientCache
     \<Rightarrow> (error + resourceMeta) outcome \<times> clientCache" where
  "getResource RESTClientForGVK obj c =
     (case GVKForObject obj (scheme c) of
        Inl err \<Rightarrow> (Return (Inl err), c)
      | Inr gvk \<Rightarrow>
          (let c1 = cemit RLock c;
               r = resourceByType c1 gvk;
               c2 = cemit RUnlock c1
           in case r of
                Some known \<Rightarrow> (Return (Inr known), c2)
              | None \<Rightarrow> getResourceMiss RESTClientForGVK obj gvk c2))"

text \<open>
  Whether every call of the transport-handle constructor in a sequence of events happens
  while the lock is not held; \<open>held\<close> is the state of the lock before the sequence.
\<close>

fun constructsOutsideLock :: "bool \<Rightarrow> event list \<Rightarrow> bool" where
  "constructsOutsideLock held [] = True"
| "constructsOutsideLock held (RLock # es) = constructsOutsideLock True es"
| "constructsOutsideLock held (Lock # es) = constructsOutsideLock True es"
| "constructsOutsideLock held (RUnlock # es) = constructsOutsideLock False es"
| "constructsOutsideLock held (Unlock # es) = constructsOutsideLock False es"
| "constructsOutsideLock held (RESTClientForGVKCall g # es) =
     (\<not> held \<and> constructsOutsideLock held es)"
| "constructsOutsideLock held (e # es) = constructsOutsideLock held es"

section \<open>Example directories and caches\<close>

text \<open>
  A snapshot that holds the given entries, each with its singular resource name. A query
  for an identifier that no entry has fails with the directory's "not found" error.
\<close>

definition directory :: "(RESTMapping \<times> string) list \<Rightarrow> RESTMapper" where
  "directory es =
     \<lparr>mKindFor = (\<lambda>r. case filter (\<lambda>e. mappingResource (fst e) = r) es of
                         [] \<Rightarrow> Inl (NoResourceMatchError r)
                       | e # rest \<Rightarrow> Inr (mappingGroupVersionKind (fst e))),
      mKindsFor = (\<lambda>r. case filter (\<lambda>e. mappingResource (fst e) = r) es of
                          [] \<Rightarrow> Inl (NoResourceMatchError r)
                        | e # rest \<Rightarrow> Inr (map (\<lambda>x. mappingGroupVersionKind (fst x)) (e # rest))),
      mResourceFor = (\<lambda>r. case filter (\<lambda>e. mappingResource (fst e) = r) es of
                             [] \<Rightarrow> Inl (NoResourceMatchError r)
                           | e # rest \<Rightarrow> Inr (mappingResource (fst e))),
      mResourcesFor = (\<lambda>r. case filter (\<lambda>e. mappingResource (fst e) = r) es of
                              [] \<Rightarrow> Inl (NoResourceMatchError r)
                            | e # rest \<Rightarrow> Inr (map (\<lambda>x. mappingResource (fst x)) (e # rest))),
      mRESTMapping = (\<lambda>gk vs.
         case filter (\<lambda>e. GroupKindOf (mappingGroupVersionKind (fst e)) = gk
                          \<and> gvkVersion (mappingGroupVersionKind (fst e)) \<in> set vs) es of
           [] \<Rightarrow> Inl (NoKindMatchError gk vs)
         | e # rest \<Rightarrow> Inr (fst e)),
      mRESTMappings = (\<lambda>gk vs.
         case filter (\<lambda>e. GroupKindOf (mappingGroupVersionKind (fst e)) = gk
                          \<and> gvkVersion (mappingGroupVersionKind (fst e)) \<in> set vs) es of
           [] \<Rightarrow> Inl (NoKindMatchError gk vs)
         | e # rest \<Rightarrow> Inr (map fst (e # rest))),
      mResourceSingularizer = (\<lambda>s.
         case filter (\<lambda>e. Resource (mappingResource (fst e)) = s) es of
           [] \<Rightarrow> Inl (NoResourceMatchError \<lparr>gvrGroup = [], gvrVersion = [], Resource = s\<rparr>)
         | e # rest \<Rightarrow> Inr (snd e))\<rparr>"

definition deployments :: "RESTMapping \<times> string" where
  "deployments =
     (\<lparr>mappingResource = \<lparr>gvrGroup = ''apps'', gvrVersion = ''v1'', Resource = ''deployments''\<rparr>,
       mappingGroupVersionKind = \<lparr>gvkGroup = ''apps'', gvkVersion = ''v1'', Kind = ''Deployment''\<rparr>,
       Scope = RESTScopeNameNamespace\<rparr>, ''deployment'')"

definition widgets :: "RESTMapping \<times> string" where
  "widgets =
     (\<lparr>mappingResource = \<lparr>gvrGroup = ''example.com'', gvrVersion = ''v1'', Resource = ''widgets''\<rparr>,
       mappingGroupVersionKind = \<lparr>gvkGroup = ''example.com'', gvkVersion = ''v1'', Kind = ''Widget''\<rparr>,
       Scope = RESTScopeNameNamespace\<rparr>, ''widget'')"

definition deploymentsGVR :: GroupVersionResource where
  "deploymentsGVR = \<lparr>gvrGroup = ''apps'', gvrVersion = ''v1'', Resource = ''deployments''\<rparr>"

definition deploymentGVK :: GroupVersionKind where
  "deploymentGVK = \<lparr>gvkGroup = ''apps'', gvkVersion = ''v1'', Kind = ''Deployment''\<rparr>"

definition widgetsGVR :: GroupVersionResource where
  "widgetsGVR = \<lparr>gvrGroup = ''example.com'', gvrVersion = ''v1'', Resource = ''widgets''\<rparr>"

definition widgetGVK :: GroupVersionKind where
  "widgetGVK = \<lparr>gvkGroup = ''example.com'', gvkVersion = ''v1'', Kind = ''Widget''\<rparr>"

definition widgetListGVK :: GroupVersionKind where
  "widgetListGVK = \<lparr>gvkGroup = ''example.com'', gvkVersion = ''v1'', Kind = ''WidgetList''\<rparr>"

text \<open>
  A mapper in the state \<open>Ready\<close> whose snapshot holds only the deployments, with the
  default rate gate still full; the directory source then reports the widgets too.
\<close>

definition readyMapper :: dynamicRESTMapper where
  "readyMapper =
     \<lparr>staticMapper = Some (directory [deployments]),
      limiter = NewLimiter defaultRefillRate defaultLimitSize,
      newMapper = (\<lambda>k. Inr (directory [deployments, widgets])),
      lazy = False, initOnce = True, now = 1000, trace = []\<rparr>"

text \<open>The same mapper with a directory source that fails.\<close>

definition staleMapper :: dynamicRESTMapper where
  "staleMapper = readyMapper\<lparr>newMapper := (\<lambda>k. Inl (OtherError ''connection refused''))\<rparr>"

text \<open>The same mapper with a rate gate that has no token left.\<close>

definition drainedMapper :: dynamicRESTMapper where
  "drainedMapper =
     readyMapper\<lparr>limiter := (NewLimiter defaultRefillRate defaultLimitSize)
                                \<lparr>tokens := 0, lastUpdate := 1000\<rparr>\<rparr>"

text \<open>A snapshot whose kind-for-resource query is ambiguous for every resource.\<close>

definition ambiguousDirectory :: RESTMapper where
  "ambiguousDirectory = (directory [deployments])\<lparr>mKindFor := (\<lambda>r. Inl (AmbiguousResourceError r))\<rparr>"

definition ambiguousMapper :: dynamicRESTMapper where
  "ambiguousMapper = readyMapper\<lparr>staticMapper := Some ambiguousDirectory\<rparr>"

text \<open>
  A lazy mapper as \<^verbatim>\<open>NewDynamicRESTMapper\<close> leaves it, whose directory source fails on its
  first call and answers from then on.
\<close>

definition flakySource :: "nat \<Rightarrow> error + RESTMapper" where
  "flakySource k =
     (if k = 0 then Inl (OtherError ''connection refused'') else Inr (directory [deployments]))"

definition lazyMapper :: dynamicRESTMapper where
  "lazyMapper =
     \<lparr>staticMapper = None,
      limiter = NewLimiter defaultRefillRate defaultLimitSize,
      newMapper = flakySource,
      lazy = True, initOnce = False, now = 1000, trace = []\<rparr>"

text \<open>A constructor that always succeeds, a scheme of two Go types, and an empty cache.\<close>

definition buildClient :: constructor where
  "buildClient gvk cfg cf = Inr (RESTClient gvk cfg)"

definition failingClient :: constructor where
  "failingClient gvk cfg cf = Inl (OtherError ''no host'')"

definition exampleScheme :: Scheme where
  "exampleScheme t =
     (if t = ''Widget'' then Inr widgetGVK
      else if t = ''WidgetList'' then Inr widgetListGVK
      else Inl (OtherError ''no kind is registered for the type''))"

definition widgetObject :: Object where
  "widgetObject = \<lparr>objType = ''Widget'', hasItems = False\<rparr>"

definition widgetListObject :: Object where
  "widgetListObject = \<lparr>objType = ''WidgetList'', hasItems = True\<rparr>"

definition emptyCache :: clientCache where
  "emptyCache =
     \<lparr>config = Config ''https://apiserver'', scheme = exampleScheme,
      mapper = readyMapper, codecs = CodecFactory,
      resourceByType = Map.empty, ctrace = []\<rparr>"

text \<open>The entry of the widgets, and a cache that holds it.\<close>

definition widgetMeta :: resourceMeta where
  "widgetMeta =
     \<lparr>Interface = RESTClient widgetGVK (Config ''https://apiserver''),
      rmGvk = widgetGVK, rmMapping = fst widgets\<rparr>"

definition warmCache :: clientCache where
  "warmCache = emptyCache\<lparr>resourceByType := [widgetGVK \<mapsto> widgetMeta]\<rparr>"

text \<open>
  A list-shaped value whose kind is the bare suffix, and a cache whose mapper knows an entry
  with the empty kind.
\<close>

definition bareListGVK :: GroupVersionKind where
  "bareListGVK = \<lparr>gvkGroup = ''example.com'', gvkVersion = ''v1'', Kind = ''List''\<rparr>"

definition kindless :: "RESTMapping \<times> string" where
  "kindless =
     (\<lparr>mappingResource = \<lparr>gvrGroup = ''example.com'', gvrVersion = ''v1'', Resource = ''things''\<rparr>,
       mappingGroupVersionKind = \<lparr>gvkGroup = ''example.com'', gvkVersion = ''v1'', Kind = []\<rparr>,
       Scope = RESTScopeNameRoot\<rparr>, ''thing'')"

definition oddCache :: clientCache where
  "oddCache = emptyCache\<lparr>mapper := readyMapper\<lparr>staticMapper := Some (directory [kindless])\<rparr>\<rparr>"

text \<open>An empty cache whose mapper has a directory source that fails.\<close>

definition staleCache :: clientCache where
  "staleCache = emptyCache\<lparr>mapper := staleMapper\<rparr>"

section \<open>Properties of the refresh protocol\<close>


lemma errorsAs_iface: "errorsAs err errorInterface = (err \<noteq> None)"
  by (simp add: errorsAs_def AssignableTo_def split: option.splits)

lemma errOf_map_sum: "errOf (map_sum id g x) = errOf x"
  by (cases x) simp_all

lemma checkAndReload_nil:
  assumes "staticMapper d = None"
  shows "checkAndReload e f d = (Panic, d\<lparr>trace := trace d @ [RLock, RUnlock]\<rparr>)"
  using assms by (simp add: checkAndReload_def Let_def callStatic_def emit_def)

lemma checkAndReload_hit:
  assumes "staticMapper d = Some m" "f m = Inr v"
  shows "checkAndReload e f d = (Return (Inr v), d\<lparr>trace := trace d @ [RLock, RUnlock]\<rparr>)"
  using assms by (simp add: checkAndReload_def Let_def callStatic_def emit_def errorsAs_iface)

lemma checkAndReload_denied:
  assumes "staticMapper d = Some m" "f m = Inl x" "checkRate (now d) (limiter d) = (Some y, b)"
  shows "checkAndReload e f d = (Return (Inl y), d\<lparr>trace := trace d @ [RLock, RUnlock, Lock, CheckRate, Unlock], limiter := b\<rparr>)"
  using assms by (simp add: checkAndReload_def Let_def callStatic_def emit_def errorsAs_iface)

lemma checkAndReload_fetch_failed:
  assumes "staticMapper d = Some m" "f m = Inl x" "checkRate (now d) (limiter d) = (None, b)"
    "newMapper d (fetches d) = Inl y"
  shows "checkAndReload e f d = (Return (Inl y), d\<lparr>trace := trace d @ [RLock, RUnlock, Lock, CheckRate, NewMapper, Unlock], limiter := b\<rparr>)"
  using assms by (simp add: checkAndReload_def Let_def callStatic_def emit_def errorsAs_iface setStaticMapper_def fetches_def)

lemma checkAndReload_rebuilt:
  assumes "staticMapper d = Some m" "f m = Inl x" "checkRate (now d) (limiter d) = (None, b)"
    "newMapper d (fetches d) = Inr m'"
  shows "checkAndReload e f d = (Return (f m'), d\<lparr>trace := trace d @ [RLock, RUnlock, Lock, CheckRate, NewMapper, Unlock], limiter := b, staticMapper := Some m'\<rparr>)"
  using assms by (simp add: checkAndReload_def Let_def callStatic_def emit_def errorsAs_iface setStaticMapper_def fetches_def)

lemma checkAndReload_retag:
  "tagged g (checkAndReload e f d) = checkAndReload (OtherError []) (\<lambda>m. map_sum id g (f m)) d"
proof (cases "staticMapper d")
  case None
  then show ?thesis by (simp add: checkAndReload_nil tagged_def)
next
  case (Some m)
  show ?thesis
  proof (cases "f m")
    case (Inr v)
    with Some show ?thesis
      by (simp add: checkAndReload_hit[where m=m] tagged_def)
  next
    case (Inl x)
    obtain y b where cr: "checkRate (now d) (limiter d) = (y, b)" by (cases "checkRate (now d) (limiter d)")
    show ?thesis
    proof (cases y)
      case (Some y')
      with \<open>staticMapper d = Some m\<close> Inl cr show ?thesis
        by (simp add: checkAndReload_denied[where m=m and x=x] tagged_def)
    next
      case None
      show ?thesis
      proof (cases "newMapper d (fetches d)")
        case (Inl z)
        with \<open>staticMapper d = Some m\<close> \<open>f m = Inl x\<close> cr None show ?thesis
          by (simp add: checkAndReload_fetch_failed[where m=m and x=x] tagged_def)
      next
        case (Inr m')
        with \<open>staticMapper d = Some m\<close> \<open>f m = Inl x\<close> cr None show ?thesis
          by (simp add: checkAndReload_rebuilt[where m=m and x=x] tagged_def)
      qed
    qed
  qed
qed

lemma lookup_eq:
  "lookup q drm = (case init drm of (Some err, d) \<Rightarrow> (Return (Inl err), d)
      | (None, d) \<Rightarrow> checkAndReload (OtherError []) (\<lambda>m. ask m q) d)"
proof (cases "init drm")
  case (Pair a d)
  show ?thesis
  proof (cases a)
    case None
    with Pair show ?thesis
      by (cases q) (simp_all add: KindFor_def KindsFor_def ResourceFor_def ResourcesFor_def RESTMappingFor_def RESTMappings_def ResourceSingularizer_def
     checkAndReload_retag)
  next
    case (Some err)
    with Pair show ?thesis
      by (cases q) (simp_all add: KindFor_def KindsFor_def ResourceFor_def ResourcesFor_def RESTMappingFor_def RESTMappings_def ResourceSingularizer_def tagged_def)
  qed
qed


lemma init_done: "initOnce d \<Longrightarrow> init d = (None, d)"
  by (simp add: init_def)

lemma init_result:
  assumes "init drm = (a, d)"
  shows "initOnce d \<and> newMapper d = newMapper drm \<and> limiter d = limiter drm \<and> now d = now drm"
  using assms
  by (auto simp: init_def Let_def setStaticMapper_def emit_def split: if_splits sum.splits)

lemma lookup_ready:
  assumes "initOnce d"
  shows "lookup q d = checkAndReload (OtherError []) (\<lambda>m. ask m q) d"
  using assms by (simp add: lookup_eq init_done)

lemma lookup_after_init:
  assumes "init drm = (None, d)"
  shows "lookup q drm = lookup q d"
proof -
  from assms have "initOnce d" using init_result by blast
  then show ?thesis using assms by (simp add: lookup_eq init_done)
qed

text \<open>
  Claim C1. For every lookup operation, once the initializer has returned no error: when
  the first evaluation of the query fails with a "not found" error, the call makes at most
  one call of the directory source. When it makes that call and the source delivers a
  snapshot, that snapshot is installed and the call returns the result of the same query
  against it, success or error. When the source fails, its error is returned and the old
  snapshot stays; when the source is not called, the old snapshot stays.
\<close>

theorem lookup_not_found_at_most_one_rebuild:
  assumes "init drm = (None, d)"
    and "staticMapper d = Some m"
    and "ask m q = Inl e"
    and "isNotFound e"
  shows "fetches (snd (lookup q drm)) \<le> fetches d + 1 \<and>
         (fetches (snd (lookup q drm)) = fetches d + 1 \<longrightarrow>
            (case newMapper d (fetches d) of
               Inr m' \<Rightarrow> staticMapper (snd (lookup q drm)) = Some m'
                          \<and> fst (lookup q drm) = Return (ask m' q)
             | Inl e' \<Rightarrow> staticMapper (snd (lookup q drm)) = Some m
                          \<and> fst (lookup q drm) = Return (Inl e'))) \<and>
         (fetches (snd (lookup q drm)) = fetches d \<longrightarrow>
            staticMapper (snd (lookup q drm)) = Some m)"
proof -
  from assms(1) have ready: "initOnce d" using init_result by blast
  have eq: "lookup q drm = checkAndReload (OtherError []) (\<lambda>m. ask m q) d"
    using lookup_after_init[OF assms(1)] lookup_ready[OF ready] by simp
  obtain y b where cr: "checkRate (now d) (limiter d) = (y, b)"
    by (cases "checkRate (now d) (limiter d)")
  show ?thesis
  proof (cases y)
    case (Some y')
    with cr assms(2,3) show ?thesis
      by (simp add: eq checkAndReload_denied[where m=m and x=e] fetches_def)
  next
    case None
    show ?thesis
    proof (cases "newMapper d (fetches d)")
      case (Inl z)
      with cr None assms(2,3) show ?thesis
        by (simp add: eq checkAndReload_fetch_failed[where m=m and x=e] fetches_def)
    next
      case (Inr m')
      with cr None assms(2,3) show ?thesis
        by (simp add: eq checkAndReload_rebuilt[where m=m and x=e] fetches_def)
    qed
  qed
qed

lemma readyMapper_init: "init readyMapper = (None, readyMapper)"
  by (simp add: init_def readyMapper_def)

lemma ask_widgets_deployments:
  "ask (directory [deployments]) (QKindFor widgetsGVR) = Inl (NoResourceMatchError widgetsGVR)"
  by (simp add: directory_def deployments_def widgetsGVR_def)

lemma ask_widgets_both:
  "ask (directory [deployments, widgets]) (QKindFor widgetsGVR) = Inr (AKind widgetGVK)"
  by (simp add: directory_def deployments_def widgets_def widgetsGVR_def widgetGVK_def)

lemma checkRate_full:
  "checkRate 1000 (NewLimiter defaultRefillRate defaultLimitSize) =
     (None, \<lparr>limit = 5, burst = 5, tokens = 4, lastUpdate = 1000\<rparr>)"
  by (simp add: checkRate_def Reserve_def Delay_def advance_def NewLimiter_def
      defaultRefillRate_def defaultLimitSize_def Let_def)

theorem lookup_not_found_at_most_one_rebuild_witness:
  "init readyMapper = (None, readyMapper) \<and>
   staticMapper readyMapper = Some (directory [deployments]) \<and>
   ask (directory [deployments]) (QKindFor widgetsGVR) = Inl (NoResourceMatchError widgetsGVR) \<and>
   isNotFound (NoResourceMatchError widgetsGVR) \<and>
   fetches readyMapper = 0 \<and>
   fetches (snd (lookup (QKindFor widgetsGVR) readyMapper)) = 1 \<and>
   staticMapper (snd (lookup (QKindFor widgetsGVR) readyMapper)) = Some (directory [deployments, widgets]) \<and>
   fst (lookup (QKindFor widgetsGVR) readyMapper) = Return (Inr (AKind widgetGVK))"
proof -
  have h1: "init readyMapper = (None, readyMapper)" by (rule readyMapper_init)
  have h2: "staticMapper readyMapper = Some (directory [deployments])" by (simp add: readyMapper_def)
  have h3: "ask (directory [deployments]) (QKindFor widgetsGVR) = Inl (NoResourceMatchError widgetsGVR)"
    by (rule ask_widgets_deployments)
  have h4: "isNotFound (NoResourceMatchError widgetsGVR)" by simp
  have f0: "fetches readyMapper = 0" by (simp add: fetches_def readyMapper_def)
  have nm: "newMapper readyMapper 0 = Inr (directory [deployments, widgets])" by (simp add: readyMapper_def)
  have ready: "initOnce readyMapper" by (simp add: readyMapper_def)
  have cr: "checkRate (now readyMapper) (limiter readyMapper) =
      (None, \<lparr>limit = 5, burst = 5, tokens = 4, lastUpdate = 1000\<rparr>)"
    using checkRate_full by (simp add: readyMapper_def)
  have nm': "newMapper readyMapper (fetches readyMapper) = Inr (directory [deployments, widgets])"
    by (simp add: f0 nm)
  have "lookup (QKindFor widgetsGVR) readyMapper =
      checkAndReload (OtherError []) (\<lambda>m. ask m (QKindFor widgetsGVR)) readyMapper"
    by (rule lookup_ready[OF ready])
  also have "\<dots> = (Return (ask (directory [deployments, widgets]) (QKindFor widgetsGVR)),
       readyMapper\<lparr>trace := trace readyMapper @ [RLock, RUnlock, Lock, CheckRate, NewMapper, Unlock],
          limiter := \<lparr>limit = 5, burst = 5, tokens = 4, lastUpdate = 1000\<rparr>,
          staticMapper := Some (directory [deployments, widgets])\<rparr>)"
    by (rule checkAndReload_rebuilt[where f="\<lambda>m. ask m (QKindFor widgetsGVR)", OF h2 h3 cr nm'])
  finally have run: "lookup (QKindFor widgetsGVR) readyMapper =
      (Return (ask (directory [deployments, widgets]) (QKindFor widgetsGVR)),
       readyMapper\<lparr>trace := trace readyMapper @ [RLock, RUnlock, Lock, CheckRate, NewMapper, Unlock],
          limiter := \<lparr>limit = 5, burst = 5, tokens = 4, lastUpdate = 1000\<rparr>,
          staticMapper := Some (directory [deployments, widgets])\<rparr>)" .
  have f1: "fetches (snd (lookup (QKindFor widgetsGVR) readyMapper)) = 1"
    unfolding run by (simp add: fetches_def readyMapper_def)
  from lookup_not_found_at_most_one_rebuild[OF h1 h2 h3 h4] f0 f1 nm h1 h2 h3 h4
  show ?thesis by (simp add: ask_widgets_both del: lookup.simps ask.simps)
qed

section \<open>Properties of the rate gate\<close>


lemma checkRate_admit:
  assumes "1 \<le> advance b t"
  shows "checkRate t b = (None, b\<lparr>tokens := advance b t - 1, lastUpdate := t\<rparr>)"
  using assms by (simp add: checkRate_def Reserve_def Delay_def Let_def)

lemma advance_le_burst: "advance b t \<le> of_nat (burst b)"
  by (simp add: advance_def)

lemma wait_positive:
  assumes "0 < r" "n < (1::rat)"
  shows "0 < durationFromTokens r (1 - n)"
proof -
  have "0 < (1 - n) / r * 1000000000" using assms by simp
  then show ?thesis unfolding durationFromTokens_def by (simp add: ceiling_less_iff del: divide_pos_pos)
qed

lemma checkRate_deny:
  assumes "0 < limit b" "advance b t < 1"
  shows "checkRate t b =
     (Some (ErrRateLimited (durationFromTokens (limit b) (1 - advance b t))),
      b\<lparr>tokens := advance b t, lastUpdate := t\<rparr>)"
proof -
  let ?a = "advance b t"
  let ?w = "durationFromTokens (limit b) (1 - ?a)"
  have w: "0 < ?w" using assms by (rule wait_positive)
  have res: "Reserve b t = (\<lparr>timeToAct = t + ?w\<rparr>, b\<lparr>tokens := ?a - 1, lastUpdate := t\<rparr>)"
    using assms(2) by (simp add: Reserve_def Let_def)
  have dl: "Delay \<lparr>timeToAct = t + ?w\<rparr> t = ?w" using w by (simp add: Delay_def)
  have adv: "advance (b\<lparr>tokens := ?a - 1, lastUpdate := t\<rparr>) t = ?a - 1"
    using advance_le_burst[of b t] by (simp add: advance_def[of "b\<lparr>tokens := ?a - 1, lastUpdate := t\<rparr>"] min_def)
  have cn: "Cancel \<lparr>timeToAct = t + ?w\<rparr> t (b\<lparr>tokens := ?a - 1, lastUpdate := t\<rparr>) = b\<lparr>tokens := ?a, lastUpdate := t\<rparr>"
    using w advance_le_burst[of b t] by (simp add: Cancel_def adv min_def)
  show ?thesis using w by (simp add: checkRate_def res dl cn)
qed

lemma wait_is_next_token:
  assumes "0 < r" "n < (1::rat)"
  shows "1 \<le> n + r * of_int (durationFromTokens r (1 - n)) / 1000000000"
    and "n + r * of_int (durationFromTokens r (1 - n) - 1) / 1000000000 < 1"
proof -
  let ?x = "(1 - n) / r * 1000000000"
  have up: "?x \<le> of_int \<lceil>?x\<rceil>" by (rule le_of_int_ceiling)
  have lo: "of_int \<lceil>?x\<rceil> - 1 < ?x" using ceiling_correct[of ?x] by linarith
  have eq: "r * ?x / 1000000000 = 1 - n" using assms(1) by simp
  have "r * ?x / 1000000000 \<le> r * of_int \<lceil>?x\<rceil> / 1000000000"
    using up assms(1) by (simp add: divide_le_cancel mult_le_cancel_left_pos del: times_divide_eq_right)
  then show "1 \<le> n + r * of_int (durationFromTokens r (1 - n)) / 1000000000"
    unfolding durationFromTokens_def eq by linarith
  have "r * (of_int \<lceil>?x\<rceil> - 1) / 1000000000 < r * ?x / 1000000000"
    using lo assms(1) by (simp add: divide_less_cancel mult_less_cancel_left_pos del: times_divide_eq_right)
  then show "n + r * of_int (durationFromTokens r (1 - n) - 1) / 1000000000 < 1"
    unfolding durationFromTokens_def eq by simp
qed

lemma DelayIfRateLimited_ErrRateLimited: "DelayIfRateLimited (Some (ErrRateLimited d)) = (d, True)"
  by (simp add: DelayIfRateLimited_def errorsAs_def AssignableTo_def)


lemma checkAndReload_no_fetch_when_denied:
  assumes "checkRate (now d) (limiter d) = (Some y, b)"
  shows "fetches (snd (checkAndReload needs f d)) = fetches d
       \<and> staticMapper (snd (checkAndReload needs f d)) = staticMapper d"
proof (cases "staticMapper d")
  case None
  then show ?thesis by (simp add: checkAndReload_nil fetches_def)
next
  case (Some m)
  show ?thesis
  proof (cases "f m")
    case (Inr v)
    with Some show ?thesis by (simp add: checkAndReload_hit[where m=m] fetches_def)
  next
    case (Inl x)
    with Some assms show ?thesis
      by (simp add: checkAndReload_denied[where m=m and x=x] fetches_def)
  qed
qed

text \<open>
  Claim C5. The admission check of the rate gate returns at once, with one of two
  outcomes. When the bucket, refilled up to now, holds a whole token, the check returns no
  error and the token is taken. Otherwise the reservation is cancelled, so the bucket keeps
  its refilled level, and the check returns \<open>ErrRateLimited\<close> with a positive delay, which is
  the first nanosecond at which the level reaches one token; \<^verbatim>\<open>DelayIfRateLimited\<close> reads
  that delay back. In that case \<^verbatim>\<open>checkAndReload\<close> makes no call of the directory source,
  keeps the snapshot, and returns the rate-limit error whenever the query had failed.
\<close>

theorem checkRate_admission:
  assumes "0 < limit (limiter d)"
  shows "(case checkRate (now d) (limiter d) of
            (None, b) \<Rightarrow>
               1 \<le> advance (limiter d) (now d)
               \<and> b = (limiter d)\<lparr>tokens := advance (limiter d) (now d) - 1, lastUpdate := now d\<rparr>
          | (Some err, b) \<Rightarrow>
               advance (limiter d) (now d) < 1
               \<and> b = (limiter d)\<lparr>tokens := advance (limiter d) (now d), lastUpdate := now d\<rparr>
               \<and> (\<exists>delay. 0 < delay \<and> err = ErrRateLimited delay
                      \<and> DelayIfRateLimited (Some err) = (delay, True)
                      \<and> 1 \<le> tokens b + limit b * of_int delay / 1000000000
                      \<and> tokens b + limit b * of_int (delay - 1) / 1000000000 < 1)
               \<and> (\<forall>needs f. fetches (snd (checkAndReload needs f d)) = fetches d
                      \<and> staticMapper (snd (checkAndReload needs f d)) = staticMapper d)
               \<and> (\<forall>needs f m x. staticMapper d = Some m \<and> f m = Inl x \<longrightarrow>
                      fst (checkAndReload needs f d) = Return (Inl err)))"
proof (cases "1 \<le> advance (limiter d) (now d)")
  case True
  then show ?thesis by (simp add: checkRate_admit)
next
  case False
  then have lt: "advance (limiter d) (now d) < 1" by simp
  let ?a = "advance (limiter d) (now d)"
  let ?w = "durationFromTokens (limit (limiter d)) (1 - ?a)"
  have cr: "checkRate (now d) (limiter d) =
      (Some (ErrRateLimited ?w), (limiter d)\<lparr>tokens := ?a, lastUpdate := now d\<rparr>)"
    using assms lt by (rule checkRate_deny)
  have w: "0 < ?w" using assms lt by (rule wait_positive)
  have nt: "1 \<le> ?a + limit (limiter d) * of_int ?w / 1000000000"
      "?a + limit (limiter d) * of_int (?w - 1) / 1000000000 < 1"
    using wait_is_next_token[OF assms lt] by simp_all
  have nofetch: "\<forall>needs f. fetches (snd (checkAndReload needs f d)) = fetches d
                      \<and> staticMapper (snd (checkAndReload needs f d)) = staticMapper d"
    using checkAndReload_no_fetch_when_denied[OF cr] by blast
  have ret: "\<forall>needs f m x. staticMapper d = Some m \<and> f m = Inl x \<longrightarrow>
                      fst (checkAndReload needs f d) = Return (Inl (ErrRateLimited ?w))"
    using cr by (auto simp: checkAndReload_denied)
  show ?thesis
    unfolding cr using lt w nt nofetch ret
    by (simp add: DelayIfRateLimited_ErrRateLimited)
qed

lemma drained_checkRate:
  "checkRate (now drainedMapper) (limiter drainedMapper) =
     (Some (ErrRateLimited 200000000), \<lparr>limit = 5, burst = 5, tokens = 0, lastUpdate = 1000\<rparr>)"
proof -
  have a: "advance (limiter drainedMapper) (now drainedMapper) = 0"
    by (simp add: advance_def drainedMapper_def readyMapper_def NewLimiter_def
        defaultRefillRate_def defaultLimitSize_def)
  have l: "0 < limit (limiter drainedMapper)"
    by (simp add: drainedMapper_def readyMapper_def NewLimiter_def defaultRefillRate_def)
  have "checkRate (now drainedMapper) (limiter drainedMapper) =
     (Some (ErrRateLimited (durationFromTokens (limit (limiter drainedMapper)) (1 - 0))),
      (limiter drainedMapper)\<lparr>tokens := 0, lastUpdate := now drainedMapper\<rparr>)"
    using checkRate_deny[OF l] a by simp
  then show ?thesis
    by (simp add: durationFromTokens_def drainedMapper_def readyMapper_def NewLimiter_def
        defaultRefillRate_def defaultLimitSize_def)
qed

theorem checkRate_admission_witness:
  "0 < limit (limiter drainedMapper) \<and>
   checkRate (now drainedMapper) (limiter drainedMapper) =
     (Some (ErrRateLimited 200000000), \<lparr>limit = 5, burst = 5, tokens = 0, lastUpdate = 1000\<rparr>) \<and>
   advance (limiter drainedMapper) (now drainedMapper) < 1 \<and>
   fetches (snd (checkAndReload (NoResourceMatchError zeroGVR) (\<lambda>m. mKindFor m widgetsGVR) drainedMapper)) = 0 \<and>
   fst (checkAndReload (NoResourceMatchError zeroGVR) (\<lambda>m. mKindFor m widgetsGVR) drainedMapper)
     = Return (Inl (ErrRateLimited 200000000))"
proof -
  have l: "0 < limit (limiter drainedMapper)"
    by (simp add: drainedMapper_def readyMapper_def NewLimiter_def defaultRefillRate_def)
  have f0: "fetches drainedMapper = 0" by (simp add: fetches_def drainedMapper_def readyMapper_def)
  have sm: "staticMapper drainedMapper = Some (directory [deployments])"
    by (simp add: drainedMapper_def readyMapper_def)
  have nf: "mKindFor (directory [deployments]) widgetsGVR = Inl (NoResourceMatchError widgetsGVR)"
    by (simp add: directory_def deployments_def widgetsGVR_def)
  note T = checkRate_admission[OF l, unfolded drained_checkRate, simplified]
  have a: "advance (limiter drainedMapper) (now drainedMapper) < 1" using T by blast
  have all1: "\<forall>needs (f :: RESTMapper \<Rightarrow> error + GroupVersionKind). fetches (snd (checkAndReload needs f drainedMapper)) = fetches drainedMapper
      \<and> staticMapper (snd (checkAndReload needs f drainedMapper)) = staticMapper drainedMapper"
    using T by blast
  have all2: "\<forall>needs (f :: RESTMapper \<Rightarrow> error + GroupVersionKind) m x. staticMapper drainedMapper = Some m \<and> f m = Inl x \<longrightarrow>
      fst (checkAndReload needs f drainedMapper) = Return (Inl (ErrRateLimited 200000000))"
    using T by blast
  have n: "fetches (snd (checkAndReload (NoResourceMatchError zeroGVR) (\<lambda>m. mKindFor m widgetsGVR) drainedMapper)) = 0"
    using all1 f0 by simp
  have r: "fst (checkAndReload (NoResourceMatchError zeroGVR) (\<lambda>m. mKindFor m widgetsGVR) drainedMapper)
     = Return (Inl (ErrRateLimited 200000000))"
    using all2[rule_format, of "directory [deployments]" "\<lambda>m. mKindFor m widgetsGVR"] sm nf by simp
  show ?thesis using l drained_checkRate a n r by simp
qed

section \<open>A failed rebuild\<close>


lemma lookup_hit:
  assumes "initOnce d" "staticMapper d = Some m" "ask m q = Inr a"
  shows "lookup q d = (Return (Inr a), d\<lparr>trace := trace d @ [RLock, RUnlock]\<rparr>)"
  using assms by (simp add: lookup_ready checkAndReload_hit[where m=m] del: ask.simps)

text \<open>
  Claim C4. When a lookup attempts a rebuild and the directory source fails,
  \<^verbatim>\<open>setStaticMapper\<close> returns the error without assigning, the lookup returns that error,
  and the installed snapshot is the one from before; every query that succeeded against
  that snapshot succeeds with the same answer when it is looked up afterwards.
\<close>

theorem failed_rebuild_keeps_snapshot:
  assumes "init drm = (None, d)"
    and "staticMapper d = Some m"
    and "fetches (snd (lookup q drm)) = fetches d + 1"
    and "newMapper d (fetches d) = Inl e"
  shows "fst (setStaticMapper d) = Some e
       \<and> staticMapper (snd (setStaticMapper d)) = Some m
       \<and> fst (lookup q drm) = Return (Inl e)
       \<and> staticMapper (snd (lookup q drm)) = Some m
       \<and> (\<forall>q' a. ask m q' = Inr a \<longrightarrow>
             fst (lookup q' (snd (lookup q drm))) = Return (Inr a))"
proof -
  from assms(1) have ready: "initOnce d" using init_result by blast
  have eq: "lookup q drm = checkAndReload (OtherError []) (\<lambda>m. ask m q) d"
    using lookup_after_init[OF assms(1)] lookup_ready[OF ready] by simp
  have ssm: "fst (setStaticMapper d) = Some e \<and> staticMapper (snd (setStaticMapper d)) = Some m"
    using assms(2,4) by (simp add: setStaticMapper_def emit_def)
  obtain y b where cr: "checkRate (now d) (limiter d) = (y, b)"
    by (cases "checkRate (now d) (limiter d)")
  show ?thesis
  proof (cases "ask m q")
    case (Inr v)
    with assms(2,3) show ?thesis
      by (simp add: eq checkAndReload_hit[where m=m] fetches_def del: ask.simps)
  next
    case (Inl x)
    show ?thesis
    proof (cases y)
      case (Some y')
      with cr assms(2,3) Inl show ?thesis
        by (simp add: eq checkAndReload_denied[where m=m and x=x] fetches_def del: ask.simps)
    next
      case None
      let ?d' = "d\<lparr>trace := trace d @ [RLock, RUnlock, Lock, CheckRate, NewMapper, Unlock], limiter := b\<rparr>"
      have run: "lookup q drm = (Return (Inl e), ?d')"
        unfolding eq
        by (rule checkAndReload_fetch_failed[where f="\<lambda>m. ask m q", OF assms(2) Inl cr[unfolded None] assms(4)])
      have r': "initOnce ?d'" "staticMapper ?d' = Some m" using ready assms(2) by simp_all
      have later: "\<forall>q' a. ask m q' = Inr a \<longrightarrow> fst (lookup q' ?d') = Return (Inr a)"
        using lookup_hit[OF r'] by (simp del: ask.simps lookup.simps)
      show ?thesis using ssm later assms(2) unfolding run by (simp del: ask.simps lookup.simps)
    qed
  qed
qed

lemma ask_deployments:
  "ask (directory [deployments]) (QKindFor deploymentsGVR) = Inr (AKind deploymentGVK)"
  by (simp add: directory_def deployments_def deploymentsGVR_def deploymentGVK_def)

theorem failed_rebuild_keeps_snapshot_witness:
  "init staleMapper = (None, staleMapper)
   \<and> staticMapper staleMapper = Some (directory [deployments])
   \<and> fetches staleMapper = 0
   \<and> fetches (snd (lookup (QKindFor widgetsGVR) staleMapper)) = 1
   \<and> newMapper staleMapper 0 = Inl (OtherError ''connection refused'')
   \<and> fst (lookup (QKindFor widgetsGVR) staleMapper) = Return (Inl (OtherError ''connection refused''))
   \<and> staticMapper (snd (lookup (QKindFor widgetsGVR) staleMapper)) = Some (directory [deployments])
   \<and> ask (directory [deployments]) (QKindFor deploymentsGVR) = Inr (AKind deploymentGVK)
   \<and> fst (lookup (QKindFor deploymentsGVR) (snd (lookup (QKindFor widgetsGVR) staleMapper)))
        = Return (Inr (AKind deploymentGVK))"
proof -
  have ready: "initOnce staleMapper" by (simp add: staleMapper_def readyMapper_def)
  have h1: "init staleMapper = (None, staleMapper)" using ready by (rule init_done)
  have h2: "staticMapper staleMapper = Some (directory [deployments])"
    by (simp add: staleMapper_def readyMapper_def)
  have f0: "fetches staleMapper = 0" by (simp add: fetches_def staleMapper_def readyMapper_def)
  have h4: "newMapper staleMapper (fetches staleMapper) = Inl (OtherError ''connection refused'')"
    by (simp add: staleMapper_def readyMapper_def)
  have cr: "checkRate (now staleMapper) (limiter staleMapper) =
      (None, \<lparr>limit = 5, burst = 5, tokens = 4, lastUpdate = 1000\<rparr>)"
    using checkRate_full by (simp add: staleMapper_def readyMapper_def)
  have "lookup (QKindFor widgetsGVR) staleMapper =
      checkAndReload (OtherError []) (\<lambda>m. ask m (QKindFor widgetsGVR)) staleMapper"
    by (rule lookup_ready[OF ready])
  also have "\<dots> = (Return (Inl (OtherError ''connection refused'')),
       staleMapper\<lparr>trace := trace staleMapper @ [RLock, RUnlock, Lock, CheckRate, NewMapper, Unlock],
          limiter := \<lparr>limit = 5, burst = 5, tokens = 4, lastUpdate = 1000\<rparr>\<rparr>)"
    by (rule checkAndReload_fetch_failed[where f="\<lambda>m. ask m (QKindFor widgetsGVR)",
          OF h2 ask_widgets_deployments cr h4])
  finally have run: "lookup (QKindFor widgetsGVR) staleMapper =
      (Return (Inl (OtherError ''connection refused'')),
       staleMapper\<lparr>trace := trace staleMapper @ [RLock, RUnlock, Lock, CheckRate, NewMapper, Unlock],
          limiter := \<lparr>limit = 5, burst = 5, tokens = 4, lastUpdate = 1000\<rparr>\<rparr>)" .
  have h3: "fetches (snd (lookup (QKindFor widgetsGVR) staleMapper)) = fetches staleMapper + 1"
    unfolding run by (simp add: fetches_def staleMapper_def readyMapper_def)
  note T = failed_rebuild_keeps_snapshot[OF h1 h2 h3 h4]
  have later: "fst (lookup (QKindFor deploymentsGVR) (snd (lookup (QKindFor widgetsGVR) staleMapper)))
        = Return (Inr (AKind deploymentGVK))"
    using T ask_deployments by blast
  show ?thesis using h1 h2 f0 h3 h4 T later ask_deployments
    by (simp del: ask.simps lookup.simps)
qed

section \<open>Errors that are not "not found", and the lazy initializer\<close>


lemma checkAndReload_needsReloadErr_ignored:
  "checkAndReload e f d = checkAndReload e' f d"
  by (simp add: checkAndReload_def)

lemma lookup_error_takes_refresh_path:
  assumes "initOnce d" "staticMapper d = Some m" "ask m q = Inl x"
  shows "take (length (trace d) + 4) (trace (snd (lookup q d))) =
           trace d @ [RLock, RUnlock, Lock, CheckRate]"
proof -
  have eq: "lookup q d = checkAndReload (OtherError []) (\<lambda>m. ask m q) d"
    by (rule lookup_ready[OF assms(1)])
  obtain y b where cr: "checkRate (now d) (limiter d) = (y, b)"
    by (cases "checkRate (now d) (limiter d)")
  show ?thesis
  proof (cases y)
    case (Some y')
    with cr assms(2,3) show ?thesis
      by (simp add: eq checkAndReload_denied[where m=m and x=x] del: ask.simps)
  next
    case None
    show ?thesis
    proof (cases "newMapper d (fetches d)")
      case (Inl z)
      with cr None assms(2,3) show ?thesis
        by (simp add: eq checkAndReload_fetch_failed[where m=m and x=x] del: ask.simps)
    next
      case (Inr m')
      with cr None assms(2,3) show ?thesis
        by (simp add: eq checkAndReload_rebuilt[where m=m and x=x] del: ask.simps)
    qed
  qed
qed

lemma ask_ambiguous:
  "ask ambiguousDirectory (QKindFor widgetsGVR) = Inl (AmbiguousResourceError widgetsGVR)"
  by (simp add: ambiguousDirectory_def)

text \<open>
  Claim C6, evaluated where it fails. The snapshot answers the kind-for-resource query with
  an ambiguity error, which is not a "not found" error. The claim has the lookup return
  that error after the shared-lock evaluation alone. The lookup instead takes the exclusive
  lock, consults the rate gate (one token is taken), calls the directory source, installs
  the new snapshot and returns the answer of the query against it.
\<close>

theorem ambiguous_error_triggers_rebuild:
  "ask ambiguousDirectory (QKindFor widgetsGVR) = Inl (AmbiguousResourceError widgetsGVR)
   \<and> isNotFound (AmbiguousResourceError widgetsGVR) = False
   \<and> staticMapper ambiguousMapper = Some ambiguousDirectory
   \<and> lookup (QKindFor widgetsGVR) ambiguousMapper =
       (Return (Inr (AKind widgetGVK)),
        ambiguousMapper\<lparr>trace := [RLock, RUnlock, Lock, CheckRate, NewMapper, Unlock],
          limiter := \<lparr>limit = 5, burst = 5, tokens = 4, lastUpdate = 1000\<rparr>,
          staticMapper := Some (directory [deployments, widgets])\<rparr>)"
proof -
  have ready: "initOnce ambiguousMapper" by (simp add: ambiguousMapper_def readyMapper_def)
  have h2: "staticMapper ambiguousMapper = Some ambiguousDirectory"
    by (simp add: ambiguousMapper_def readyMapper_def)
  have tr: "trace ambiguousMapper = []" by (simp add: ambiguousMapper_def readyMapper_def)
  have f0: "fetches ambiguousMapper = 0" by (simp add: fetches_def tr)
  have nm: "newMapper ambiguousMapper (fetches ambiguousMapper) = Inr (directory [deployments, widgets])"
    by (simp add: ambiguousMapper_def readyMapper_def)
  have cr: "checkRate (now ambiguousMapper) (limiter ambiguousMapper) =
      (None, \<lparr>limit = 5, burst = 5, tokens = 4, lastUpdate = 1000\<rparr>)"
    using checkRate_full by (simp add: ambiguousMapper_def readyMapper_def)
  have "lookup (QKindFor widgetsGVR) ambiguousMapper =
      checkAndReload (OtherError []) (\<lambda>m. ask m (QKindFor widgetsGVR)) ambiguousMapper"
    by (rule lookup_ready[OF ready])
  also have "\<dots> = (Return (ask (directory [deployments, widgets]) (QKindFor widgetsGVR)),
       ambiguousMapper\<lparr>trace := trace ambiguousMapper @ [RLock, RUnlock, Lock, CheckRate, NewMapper, Unlock],
          limiter := \<lparr>limit = 5, burst = 5, tokens = 4, lastUpdate = 1000\<rparr>,
          staticMapper := Some (directory [deployments, widgets])\<rparr>)"
    by (rule checkAndReload_rebuilt[where f="\<lambda>m. ask m (QKindFor widgetsGVR)",
          OF h2 ask_ambiguous cr nm])
  finally have run: "lookup (QKindFor widgetsGVR) ambiguousMapper =
      (Return (Inr (AKind widgetGVK)),
       ambiguousMapper\<lparr>trace := [RLock, RUnlock, Lock, CheckRate, NewMapper, Unlock],
          limiter := \<lparr>limit = 5, burst = 5, tokens = 4, lastUpdate = 1000\<rparr>,
          staticMapper := Some (directory [deployments, widgets])\<rparr>)"
    by (simp only: ask_widgets_both tr append_Nil)
  show ?thesis using ask_ambiguous h2 run by (simp del: ask.simps lookup.simps)
qed

lemma lazyMapper_constructed:
  "NewDynamicRESTMapper None discovery [WithLazyDiscovery, WithCustomMapper flakySource] 1000
     = Inr lazyMapper"
  by (simp add: NewDynamicRESTMapper_def lazyMapper_def)

lemma lazy_init_failure_then_panic:
  assumes "\<not> initOnce drm" "lazy drm" "staticMapper drm = None"
    and "newMapper drm (fetches drm) = Inl e"
  shows "fst (lookup q drm) = Return (Inl e)
       \<and> fst (lookup q' (snd (lookup q drm))) = Panic
       \<and> fetches (snd (lookup q' (snd (lookup q drm)))) = fetches drm + 1"
proof -
  let ?d = "drm\<lparr>initOnce := True, trace := trace drm @ [NewMapper]\<rparr>"
  have i: "init drm = (Some e, ?d)"
    using assms by (simp add: init_def setStaticMapper_def emit_def fetches_def Let_def)
  have first: "lookup q drm = (Return (Inl e), ?d)" by (simp add: lookup_eq i)
  have r: "initOnce ?d" "staticMapper ?d = None" using assms(3) by simp_all
  have second: "lookup q' ?d = (Panic, ?d\<lparr>trace := trace ?d @ [RLock, RUnlock]\<rparr>)"
    by (simp only: lookup_ready[OF r(1)] checkAndReload_nil[OF r(2)])
  show ?thesis unfolding first by (simp add: second fetches_def del: lookup.simps)
qed

text \<open>
  Claim C3, evaluated where it fails. The mapper is lazy and its directory source fails on
  the first call. The first kind-for-resource call runs the initial fetch and returns the
  error of the source. The second call finds the gate used, gets no error from the
  initializer, and calls a method of the nil snapshot: it panics instead of returning the
  error of the first attempt. The directory source has been called once in all.
\<close>

theorem lazy_init_failure_not_shared:
  "fst (KindFor widgetsGVR lazyMapper) = Return (Inl (OtherError ''connection refused''))
   \<and> fst (KindFor widgetsGVR (snd (KindFor widgetsGVR lazyMapper))) = Panic
   \<and> fetches (snd (KindFor widgetsGVR (snd (KindFor widgetsGVR lazyMapper)))) = 1"
proof -
  let ?d = "lazyMapper\<lparr>initOnce := True, trace := [NewMapper]\<rparr>"
  have i: "init lazyMapper = (Some (OtherError ''connection refused''), ?d)"
    by (simp add: init_def setStaticMapper_def emit_def fetches_def Let_def lazyMapper_def flakySource_def)
  have first: "KindFor widgetsGVR lazyMapper = (Return (Inl (OtherError ''connection refused'')), ?d)"
    by (simp add: KindFor_def i)
  have i2: "init ?d = (None, ?d)" by (simp add: init_def)
  have nil: "staticMapper ?d = None" by (simp add: lazyMapper_def)
  have second: "KindFor widgetsGVR ?d = (Panic, ?d\<lparr>trace := trace ?d @ [RLock, RUnlock]\<rparr>)"
    by (simp only: KindFor_def i2 prod.case option.case checkAndReload_nil[OF nil])
  show ?thesis unfolding first by (simp add: second fetches_def)
qed

section \<open>Properties of the type-resource cache\<close>


lemma HasSuffix_append: "HasSuffix (k @ s) s"
  by (simp add: HasSuffix_def)

lemma newResource_ctor_fails:
  assumes "ctor (itemGVK gvk isList) (config c) (codecs c) = Inl e"
  shows "newResource ctor gvk isList c =
           (Return (Inl e), c\<lparr>ctrace := ctrace c @ [RESTClientForGVKCall (itemGVK gvk isList)]\<rparr>)"
  using assms by (simp add: newResource_def itemGVK_def Let_def cemit_def)

lemma newResource_ctor_ok:
  assumes "ctor (itemGVK gvk isList) (config c) (codecs c) = Inr client"
    and "g = itemGVK gvk isList"
  shows "newResource ctor gvk isList c =
           (map_outcome (map_sum id (\<lambda>mp. \<lparr>Interface = client, rmGvk = g, rmMapping = mp\<rparr>))
              (fst (RESTMappingFor (GroupKindOf g) [gvkVersion g] (mapper c))),
            c\<lparr>ctrace := ctrace c @ [RESTClientForGVKCall g,
                                      RESTMappingCall (GroupKindOf g) [gvkVersion g]],
               mapper := snd (RESTMappingFor (GroupKindOf g) [gvkVersion g] (mapper c))\<rparr>)"
  using assms
  by (simp add: newResource_def itemGVK_def Let_def cemit_def
      split: prod.splits outcome.splits sum.splits)

lemma getResourceMiss_ctor_fails:
  assumes "ctor (itemGVK gvk (IsListType obj)) (config c) (codecs c) = Inl e"
  shows "getResourceMiss ctor obj gvk c =
           (Return (Inl e),
            c\<lparr>ctrace := ctrace c @ [Lock, RESTClientForGVKCall (itemGVK gvk (IsListType obj)), Unlock]\<rparr>)"
proof -
  have "ctor (itemGVK gvk (IsListType obj)) (config (cemit Lock c)) (codecs (cemit Lock c)) = Inl e"
    using assms by (simp add: cemit_def)
  from newResource_ctor_fails[where ctor=ctor and gvk=gvk and isList="IsListType obj"
      and c="cemit Lock c" and e=e, OF this]
  show ?thesis
    by (simp add: getResourceMiss_def Let_def cemit_def)
qed

lemma getResourceMiss_ctor_ok:
  assumes "ctor (itemGVK gvk (IsListType obj)) (config c) (codecs c) = Inr client"
    and "g = itemGVK gvk (IsListType obj)"
    and "RESTMappingFor (GroupKindOf g) [gvkVersion g] (mapper c) = (out, d)"
  shows "getResourceMiss ctor obj gvk c =
           (case out of
              Panic \<Rightarrow> (Panic,
                 c\<lparr>ctrace := ctrace c @ [Lock, RESTClientForGVKCall g,
                       RESTMappingCall (GroupKindOf g) [gvkVersion g], Unlock],
                   mapper := d\<rparr>)
            | Return (Inl e) \<Rightarrow> (Return (Inl e),
                 c\<lparr>ctrace := ctrace c @ [Lock, RESTClientForGVKCall g,
                       RESTMappingCall (GroupKindOf g) [gvkVersion g], Unlock],
                   mapper := d\<rparr>)
            | Return (Inr mp) \<Rightarrow>
                (Return (Inr \<lparr>Interface = client, rmGvk = g, rmMapping = mp\<rparr>),
                 c\<lparr>ctrace := ctrace c @ [Lock, RESTClientForGVKCall g,
                       RESTMappingCall (GroupKindOf g) [gvkVersion g], Unlock],
                   mapper := d,
                   resourceByType := (resourceByType c)(gvk \<mapsto>
                       \<lparr>Interface = client, rmGvk = g, rmMapping = mp\<rparr>)\<rparr>))"
proof -
  have a: "ctor (itemGVK gvk (IsListType obj)) (config (cemit Lock c)) (codecs (cemit Lock c)) = Inr client"
    using assms(1) by (simp add: cemit_def)
  have m: "mapper (cemit Lock c) = mapper c" by (simp add: cemit_def)
  show ?thesis
    unfolding getResourceMiss_def Let_def
      newResource_ctor_ok[where ctor=ctor and gvk=gvk and isList="IsListType obj"
        and c="cemit Lock c" and client=client and g=g, OF a assms(2)] m assms(3)
    by (simp add: cemit_def split: outcome.splits sum.splits)
qed

lemma getResource_miss:
  assumes "GVKForObject obj (scheme c) = Inr gvk" "resourceByType c gvk = None"
  shows "getResource ctor obj c =
           getResourceMiss ctor obj gvk (c\<lparr>ctrace := ctrace c @ [RLock, RUnlock]\<rparr>)"
  using assms by (simp add: getResource_def Let_def cemit_def)

text \<open>
  Claim C9. When the type identifier of the value is in the table, \<^verbatim>\<open>getResource\<close> returns
  the entry and changes nothing but the trace, to which it adds the shared lock and its
  release: no call of the constructor, no call of the mapper, no write to the table. This
  holds for every constructor, also one that would fail.
\<close>

theorem getResource_hit_is_read_only:
  assumes "GVKForObject obj (scheme c) = Inr gvk"
    and "resourceByType c gvk = Some r"
  shows "getResource ctor obj c = (Return (Inr r), c\<lparr>ctrace := ctrace c @ [RLock, RUnlock]\<rparr>)"
  using assms by (simp add: getResource_def Let_def cemit_def)

theorem getResource_hit_is_read_only_witness:
  "GVKForObject widgetObject (scheme warmCache) = Inr widgetGVK
   \<and> resourceByType warmCache widgetGVK = Some widgetMeta
   \<and> getResource failingClient widgetObject warmCache
       = (Return (Inr widgetMeta), warmCache\<lparr>ctrace := ctrace warmCache @ [RLock, RUnlock]\<rparr>)"
proof -
  have h1: "GVKForObject widgetObject (scheme warmCache) = Inr widgetGVK"
    by (simp add: GVKForObject_def warmCache_def emptyCache_def exampleScheme_def widgetObject_def)
  have h2: "resourceByType warmCache widgetGVK = Some widgetMeta"
    by (simp add: warmCache_def)
  from getResource_hit_is_read_only[OF h1 h2, of failingClient] h1 h2 show ?thesis by simp
qed


lemma newResource_first_event:
  "ctrace (snd (newResource ctor gvk isList c)) ! length (ctrace c)
     = RESTClientForGVKCall (itemGVK gvk isList)"
proof (cases "ctor (itemGVK gvk isList) (config c) (codecs c)")
  case (Inl e)
  show ?thesis
    unfolding newResource_ctor_fails[where ctor=ctor and gvk=gvk and isList=isList and c=c and e=e, OF Inl]
    by simp
next
  case (Inr client)
  show ?thesis
    unfolding newResource_ctor_ok[where ctor=ctor and gvk=gvk and isList=isList and c=c
        and client=client and g="itemGVK gvk isList", OF Inr refl]
    by simp
qed

lemma getResource_miss_trace:
  assumes "GVKForObject obj (scheme c) = Inr gvk" "resourceByType c gvk = None"
    and "g = itemGVK gvk (IsListType obj)"
  shows "ctrace (snd (getResource ctor obj c)) =
           ctrace c @ [RLock, RUnlock, Lock, RESTClientForGVKCall g]
             @ (case ctor g (config c) (codecs c) of
                  Inl e \<Rightarrow> []
                | Inr client \<Rightarrow> [RESTMappingCall (GroupKindOf g) [gvkVersion g]])
             @ [Unlock]"
proof -
  let ?c = "c\<lparr>ctrace := ctrace c @ [RLock, RUnlock]\<rparr>"
  have eq: "getResource ctor obj c = getResourceMiss ctor obj gvk ?c"
    using assms(1,2) by (rule getResource_miss)
  show ?thesis
  proof (cases "ctor g (config c) (codecs c)")
    case (Inl e)
    then have "ctor (itemGVK gvk (IsListType obj)) (config ?c) (codecs ?c) = Inl e"
      using assms(3) by simp
    from getResourceMiss_ctor_fails[where ctor=ctor and gvk=gvk and obj=obj and c="?c" and e=e, OF this]
    show ?thesis using Inl assms(3) by (simp add: eq)
  next
    case (Inr client)
    then have a: "ctor (itemGVK gvk (IsListType obj)) (config ?c) (codecs ?c) = Inr client"
      using assms(3) by simp
    obtain out d where m: "RESTMappingFor (GroupKindOf g) [gvkVersion g] (mapper ?c) = (out, d)"
      by (cases "RESTMappingFor (GroupKindOf g) [gvkVersion g] (mapper ?c)")
    from getResourceMiss_ctor_ok[where ctor=ctor and gvk=gvk and obj=obj and c="?c"
        and client=client and g=g, OF a assms(3) m]
    show ?thesis using Inr by (simp add: eq split: outcome.splits sum.splits)
  qed
qed

lemma getResource_miss_error_frame:
  assumes "GVKForObject obj (scheme c) = Inr gvk" "resourceByType c gvk = None"
    and "getResource ctor obj c = (Return (Inl e), c')"
  shows "resourceByType c' = resourceByType c \<and> scheme c' = scheme c
       \<and> config c' = config c \<and> codecs c' = codecs c"
proof -
  let ?c = "c\<lparr>ctrace := ctrace c @ [RLock, RUnlock]\<rparr>"
  let ?g = "itemGVK gvk (IsListType obj)"
  have eq: "getResource ctor obj c = getResourceMiss ctor obj gvk ?c"
    using assms(1,2) by (rule getResource_miss)
  show ?thesis
  proof (cases "ctor ?g (config c) (codecs c)")
    case (Inl e0)
    then have "ctor ?g (config ?c) (codecs ?c) = Inl e0" by simp
    from getResourceMiss_ctor_fails[where ctor=ctor and gvk=gvk and obj=obj and c="?c" and e=e0, OF this]
    show ?thesis using assms(3) by (auto simp: eq)
  next
    case (Inr client)
    then have a: "ctor ?g (config ?c) (codecs ?c) = Inr client" by simp
    obtain out d where m: "RESTMappingFor (GroupKindOf ?g) [gvkVersion ?g] (mapper ?c) = (out, d)"
      by (cases "RESTMappingFor (GroupKindOf ?g) [gvkVersion ?g] (mapper ?c)")
    from getResourceMiss_ctor_ok[where ctor=ctor and gvk=gvk and obj=obj and c="?c"
        and client=client and g="?g", OF a refl m]
    show ?thesis using assms(3) by (auto simp: eq split: outcome.splits sum.splits)
  qed
qed

text \<open>
  Claim C7. On a miss, when the constructor fails, or when it succeeds and the mapping
  lookup of the mapper fails, \<^verbatim>\<open>getResource\<close> returns that error and the table is the one
  from before. The next call for the same value is a miss again: it takes the exclusive
  lock and calls the constructor for the item type, and when the constructor succeeds it
  calls the mapping lookup.
\<close>

theorem getResource_failure_not_cached:
  assumes "GVKForObject obj (scheme c) = Inr gvk"
    and "resourceByType c gvk = None"
    and "g = itemGVK gvk (IsListType obj)"
    and "ctor g (config c) (codecs c) = Inl e
         \<or> ((\<exists>client. ctor g (config c) (codecs c) = Inr client)
            \<and> fst (RESTMappingFor (GroupKindOf g) [gvkVersion g] (mapper c)) = Return (Inl e))"
  shows "fst (getResource ctor obj c) = Return (Inl e)
       \<and> resourceByType (snd (getResource ctor obj c)) = resourceByType c
       \<and> (\<forall>ctor2. take (length (ctrace (snd (getResource ctor obj c))) + 4)
                     (ctrace (snd (getResource ctor2 obj (snd (getResource ctor obj c)))))
              = ctrace (snd (getResource ctor obj c))
                  @ [RLock, RUnlock, Lock, RESTClientForGVKCall g])
       \<and> (\<forall>ctor2 client.
              ctor2 g (config (snd (getResource ctor obj c))) (codecs (snd (getResource ctor obj c)))
                = Inr client \<longrightarrow>
              ctrace (snd (getResource ctor2 obj (snd (getResource ctor obj c))))
                  ! (length (ctrace (snd (getResource ctor obj c))) + 4)
                = RESTMappingCall (GroupKindOf g) [gvkVersion g])"
proof -
  let ?c = "c\<lparr>ctrace := ctrace c @ [RLock, RUnlock]\<rparr>"
  have eq: "getResource ctor obj c = getResourceMiss ctor obj gvk ?c"
    using assms(1,2) by (rule getResource_miss)
  have res: "fst (getResource ctor obj c) = Return (Inl e)"
    using assms(4)
  proof
    assume "ctor g (config c) (codecs c) = Inl e"
    then have "ctor (itemGVK gvk (IsListType obj)) (config ?c) (codecs ?c) = Inl e"
      using assms(3) by simp
    from getResourceMiss_ctor_fails[where ctor=ctor and gvk=gvk and obj=obj and c="?c" and e=e, OF this]
    show ?thesis by (simp add: eq)
  next
    assume a: "(\<exists>client. ctor g (config c) (codecs c) = Inr client)
            \<and> fst (RESTMappingFor (GroupKindOf g) [gvkVersion g] (mapper c)) = Return (Inl e)"
    then obtain client where cl: "ctor g (config c) (codecs c) = Inr client" by blast
    then have a': "ctor (itemGVK gvk (IsListType obj)) (config ?c) (codecs ?c) = Inr client"
      using assms(3) by simp
    obtain out d where m: "RESTMappingFor (GroupKindOf g) [gvkVersion g] (mapper ?c) = (out, d)"
      by (cases "RESTMappingFor (GroupKindOf g) [gvkVersion g] (mapper ?c)")
    have out: "out = Return (Inl e)" using a m by simp
    from getResourceMiss_ctor_ok[where ctor=ctor and gvk=gvk and obj=obj and c="?c"
        and client=client and g=g, OF a' assms(3) m]
    show ?thesis by (simp add: eq out)
  qed
  let ?c' = "snd (getResource ctor obj c)"
  have run: "getResource ctor obj c = (Return (Inl e), ?c')"
    using res by (simp add: prod_eq_iff)
  note fr = getResource_miss_error_frame[OF assms(1,2) run]
  have h1: "GVKForObject obj (scheme ?c') = Inr gvk" using fr assms(1) by simp
  have h2: "resourceByType ?c' gvk = None" using fr assms(2) by simp
  note tr = getResource_miss_trace[OF h1 h2 assms(3)]
  have a: "\<forall>ctor2. take (length (ctrace ?c') + 4) (ctrace (snd (getResource ctor2 obj ?c')))
              = ctrace ?c' @ [RLock, RUnlock, Lock, RESTClientForGVKCall g]"
    by (simp add: tr)
  have b: "\<forall>ctor2 client.
              ctor2 g (config ?c') (codecs ?c') = Inr client \<longrightarrow>
              ctrace (snd (getResource ctor2 obj ?c')) ! (length (ctrace ?c') + 4)
                = RESTMappingCall (GroupKindOf g) [gvkVersion g]"
    by (simp add: tr nth_append)
  show ?thesis using res fr a b by blast
qed

lemma widget_key: "GVKForObject widgetObject (scheme emptyCache) = Inr widgetGVK"
  by (simp add: GVKForObject_def emptyCache_def exampleScheme_def widgetObject_def)

lemma widgetList_key: "GVKForObject widgetListObject (scheme emptyCache) = Inr widgetListGVK"
  by (simp add: GVKForObject_def emptyCache_def exampleScheme_def widgetListObject_def)

lemma widget_item: "itemGVK widgetGVK (IsListType widgetObject) = widgetGVK"
  by (simp add: itemGVK_def IsListType_def widgetObject_def)

lemma widgetList_item: "itemGVK widgetListGVK (IsListType widgetListObject) = widgetGVK"
  by (simp add: itemGVK_def IsListType_def widgetListObject_def widgetListGVK_def widgetGVK_def
      HasSuffix_def)

lemma staleMapper_widget_mapping:
  "fst (RESTMappingFor (GroupKindOf widgetGVK) [gvkVersion widgetGVK] staleMapper)
     = Return (Inl (OtherError ''connection refused''))"
proof -
  let ?f = "\<lambda>m. mRESTMapping m (GroupKindOf widgetGVK) [gvkVersion widgetGVK]"
  have i: "init staleMapper = (None, staleMapper)"
    by (simp add: init_def staleMapper_def readyMapper_def)
  have h2: "staticMapper staleMapper = Some (directory [deployments])"
    by (simp add: staleMapper_def readyMapper_def)
  have h3: "?f (directory [deployments])
              = Inl (NoKindMatchError (GroupKindOf widgetGVK) [gvkVersion widgetGVK])"
    by (simp add: directory_def deployments_def widgetGVK_def GroupKindOf_def)
  have cr: "checkRate (now staleMapper) (limiter staleMapper) =
      (None, \<lparr>limit = 5, burst = 5, tokens = 4, lastUpdate = 1000\<rparr>)"
    using checkRate_full by (simp add: staleMapper_def readyMapper_def)
  have nm: "newMapper staleMapper (fetches staleMapper) = Inl (OtherError ''connection refused'')"
    by (simp add: staleMapper_def readyMapper_def)
  show ?thesis
    unfolding RESTMappingFor_def i prod.case option.case
      checkAndReload_fetch_failed[where f="?f", OF h2 h3 cr nm]
    by simp
qed

theorem getResource_failure_not_cached_witness:
  "GVKForObject widgetObject (scheme staleCache) = Inr widgetGVK
   \<and> resourceByType staleCache widgetGVK = None
   \<and> widgetGVK = itemGVK widgetGVK (IsListType widgetObject)
   \<and> buildClient widgetGVK (config staleCache) (codecs staleCache)
       = Inr (RESTClient widgetGVK (Config ''https://apiserver''))
   \<and> fst (RESTMappingFor (GroupKindOf widgetGVK) [gvkVersion widgetGVK] (mapper staleCache))
       = Return (Inl (OtherError ''connection refused''))
   \<and> fst (getResource buildClient widgetObject staleCache)
       = Return (Inl (OtherError ''connection refused''))
   \<and> resourceByType (snd (getResource buildClient widgetObject staleCache)) = Map.empty
   \<and> take 10 (ctrace (snd (getResource buildClient widgetObject
                  (snd (getResource buildClient widgetObject staleCache)))))
       = [RLock, RUnlock, Lock, RESTClientForGVKCall widgetGVK,
          RESTMappingCall (GroupKindOf widgetGVK) [gvkVersion widgetGVK], Unlock,
          RLock, RUnlock, Lock, RESTClientForGVKCall widgetGVK]
   \<and> failingClient widgetGVK (config emptyCache) (codecs emptyCache) = Inl (OtherError ''no host'')
   \<and> fst (getResource failingClient widgetObject emptyCache) = Return (Inl (OtherError ''no host''))
   \<and> resourceByType (snd (getResource failingClient widgetObject emptyCache)) = Map.empty"
proof -
  have k: "GVKForObject widgetObject (scheme staleCache) = Inr widgetGVK"
    using widget_key by (simp add: staleCache_def)
  have n: "resourceByType staleCache widgetGVK = None" by (simp add: staleCache_def emptyCache_def)
  have t0: "ctrace staleCache = []" by (simp add: staleCache_def emptyCache_def)
  have b: "buildClient widgetGVK (config staleCache) (codecs staleCache)
       = Inr (RESTClient widgetGVK (Config ''https://apiserver''))"
    by (simp add: buildClient_def staleCache_def emptyCache_def)
  have m: "fst (RESTMappingFor (GroupKindOf widgetGVK) [gvkVersion widgetGVK] (mapper staleCache))
       = Return (Inl (OtherError ''connection refused''))"
    using staleMapper_widget_mapping by (simp add: staleCache_def)
  have fail: "buildClient widgetGVK (config staleCache) (codecs staleCache)
                = Inl (OtherError ''connection refused'')
         \<or> ((\<exists>client. buildClient widgetGVK (config staleCache) (codecs staleCache) = Inr client)
            \<and> fst (RESTMappingFor (GroupKindOf widgetGVK) [gvkVersion widgetGVK] (mapper staleCache))
                = Return (Inl (OtherError ''connection refused'')))"
    using b m by blast
  note T = getResource_failure_not_cached[where ctor=buildClient, OF k n widget_item[symmetric] fail]
  have r1: "fst (getResource buildClient widgetObject staleCache)
       = Return (Inl (OtherError ''connection refused''))"
    using T by blast
  have r2: "resourceByType (snd (getResource buildClient widgetObject staleCache)) = Map.empty"
    using T by (simp add: staleCache_def emptyCache_def)
  have tr: "ctrace (snd (getResource buildClient widgetObject staleCache))
       = [RLock, RUnlock, Lock, RESTClientForGVKCall widgetGVK,
          RESTMappingCall (GroupKindOf widgetGVK) [gvkVersion widgetGVK], Unlock]"
    unfolding getResource_miss_trace[OF k n widget_item[symmetric], of buildClient]
    by (simp add: b t0)
  have r3: "take 10 (ctrace (snd (getResource buildClient widgetObject
                  (snd (getResource buildClient widgetObject staleCache)))))
       = [RLock, RUnlock, Lock, RESTClientForGVKCall widgetGVK,
          RESTMappingCall (GroupKindOf widgetGVK) [gvkVersion widgetGVK], Unlock,
          RLock, RUnlock, Lock, RESTClientForGVKCall widgetGVK]"
    using T[THEN conjunct2, THEN conjunct2, THEN conjunct1, rule_format, of buildClient]
    by (simp add: tr)
  have n0: "resourceByType emptyCache widgetGVK = None" by (simp add: emptyCache_def)
  have f: "failingClient widgetGVK (config emptyCache) (codecs emptyCache) = Inl (OtherError ''no host'')"
    by (simp add: failingClient_def)
  have fail0: "failingClient widgetGVK (config emptyCache) (codecs emptyCache) = Inl (OtherError ''no host'')
         \<or> ((\<exists>client. failingClient widgetGVK (config emptyCache) (codecs emptyCache) = Inr client)
            \<and> fst (RESTMappingFor (GroupKindOf widgetGVK) [gvkVersion widgetGVK] (mapper emptyCache))
                = Return (Inl (OtherError ''no host'')))"
    using f by blast
  note T0 = getResource_failure_not_cached[where ctor=failingClient, OF widget_key n0 widget_item[symmetric] fail0]
  have q1: "fst (getResource failingClient widgetObject emptyCache) = Return (Inl (OtherError ''no host''))"
    using T0 by blast
  have q2: "resourceByType (snd (getResource failingClient widgetObject emptyCache)) = Map.empty"
    using T0 by (simp add: emptyCache_def)
  show ?thesis using k n widget_item b m r1 r2 r3 f q1 q2 by simp
qed

text \<open>
  Claim C8. For a list-shaped value the suffix \<open>List\<close> is stripped before the constructor
  and the mapping lookup are called: \<^verbatim>\<open>newResource\<close> on the kind \<open>k @ ''List''\<close> of a list
  does what it does on the kind \<open>k\<close> of a plain value, and on a miss \<^verbatim>\<open>getResource\<close>
  returns the same handle for the list value as for the plain value. For a value that is
  not list-shaped the kind is never stripped: the constructor is called with the kind as
  given, and a handle that is returned carries that kind and the mapping looked up for it.
\<close>

theorem list_value_resolves_item_type:
  "newResource ctor (gvk\<lparr>Kind := k @ ''List''\<rparr>) True c
     = newResource ctor (gvk\<lparr>Kind := k\<rparr>) False c
   \<and> (GVKForObject listObj (scheme c) = Inr (gvk\<lparr>Kind := k @ ''List''\<rparr>)
        \<and> IsListType listObj \<and> resourceByType c (gvk\<lparr>Kind := k @ ''List''\<rparr>) = None
        \<and> GVKForObject obj (scheme c) = Inr (gvk\<lparr>Kind := k\<rparr>)
        \<and> \<not> IsListType obj \<and> resourceByType c (gvk\<lparr>Kind := k\<rparr>) = None
      \<longrightarrow> fst (getResource ctor listObj c) = fst (getResource ctor obj c))
   \<and> ctrace (snd (newResource ctor gvk False c)) ! length (ctrace c) = RESTClientForGVKCall gvk
   \<and> (\<forall>r c'. newResource ctor gvk False c = (Return (Inr r), c') \<longrightarrow>
         rmGvk r = gvk
         \<and> fst (RESTMappingFor (GroupKindOf gvk) [gvkVersion gvk] (mapper c))
             = Return (Inr (rmMapping r)))"
proof -
  have strip: "newResource ctor (gvk\<lparr>Kind := k @ ''List''\<rparr>) True c0
     = newResource ctor (gvk\<lparr>Kind := k\<rparr>) False c0" for c0
  proof -
    have "HasSuffix (k @ ''List'') ''List''" by (rule HasSuffix_append)
    then show ?thesis by (simp add: newResource_def)
  qed
  have same: "fst (getResource ctor listObj c) = fst (getResource ctor obj c)"
    if a: "GVKForObject listObj (scheme c) = Inr (gvk\<lparr>Kind := k @ ''List''\<rparr>)"
      and b: "IsListType listObj" and c1: "resourceByType c (gvk\<lparr>Kind := k @ ''List''\<rparr>) = None"
      and d: "GVKForObject obj (scheme c) = Inr (gvk\<lparr>Kind := k\<rparr>)"
      and e: "\<not> IsListType obj" and f: "resourceByType c (gvk\<lparr>Kind := k\<rparr>) = None"
    unfolding getResource_miss[OF a c1] getResource_miss[OF d f] getResourceMiss_def Let_def
    using b e by (simp add: strip split: prod.splits outcome.splits sum.splits)
  have nolist: "itemGVK gvk False = gvk" by (simp add: itemGVK_def)
  have first: "ctrace (snd (newResource ctor gvk False c)) ! length (ctrace c) = RESTClientForGVKCall gvk"
    using newResource_first_event[of ctor gvk False c] by (simp add: nolist)
  have succ: "\<forall>r c'. newResource ctor gvk False c = (Return (Inr r), c') \<longrightarrow>
         rmGvk r = gvk
         \<and> fst (RESTMappingFor (GroupKindOf gvk) [gvkVersion gvk] (mapper c))
             = Return (Inr (rmMapping r))"
    by (auto simp: newResource_def Let_def cemit_def split: sum.splits prod.splits outcome.splits)
  show ?thesis using strip same first succ by blast
qed


lemma readyMapper_widget_mapping:
  "fst (RESTMappingFor (GroupKindOf widgetGVK) [gvkVersion widgetGVK] readyMapper)
     = Return (Inr (fst widgets))"
proof -
  let ?f = "\<lambda>m. mRESTMapping m (GroupKindOf widgetGVK) [gvkVersion widgetGVK]"
  have h2: "staticMapper readyMapper = Some (directory [deployments])" by (simp add: readyMapper_def)
  have h3: "?f (directory [deployments])
              = Inl (NoKindMatchError (GroupKindOf widgetGVK) [gvkVersion widgetGVK])"
    by (simp add: directory_def deployments_def widgetGVK_def GroupKindOf_def)
  have cr: "checkRate (now readyMapper) (limiter readyMapper) =
      (None, \<lparr>limit = 5, burst = 5, tokens = 4, lastUpdate = 1000\<rparr>)"
    using checkRate_full by (simp add: readyMapper_def)
  have nm: "newMapper readyMapper (fetches readyMapper) = Inr (directory [deployments, widgets])"
    by (simp add: readyMapper_def)
  have res: "?f (directory [deployments, widgets]) = Inr (fst widgets)"
    by (simp add: directory_def deployments_def widgets_def widgetGVK_def GroupKindOf_def)
  show ?thesis
    unfolding RESTMappingFor_def readyMapper_init prod.case option.case
      checkAndReload_rebuilt[where f="?f", OF h2 h3 cr nm]
    by (simp add: res)
qed

theorem list_value_resolves_item_type_witness:
  "GVKForObject widgetListObject (scheme emptyCache) = Inr widgetListGVK
   \<and> IsListType widgetListObject \<and> resourceByType emptyCache widgetListGVK = None
   \<and> GVKForObject widgetObject (scheme emptyCache) = Inr widgetGVK
   \<and> \<not> IsListType widgetObject \<and> resourceByType emptyCache widgetGVK = None
   \<and> fst (getResource buildClient widgetObject emptyCache) = Return (Inr widgetMeta)
   \<and> fst (getResource buildClient widgetListObject emptyCache) = Return (Inr widgetMeta)
   \<and> rmGvk widgetMeta = widgetGVK"
proof -
  have l1: "IsListType widgetListObject" by (simp add: IsListType_def widgetListObject_def)
  have l2: "\<not> IsListType widgetObject" by (simp add: IsListType_def widgetObject_def)
  have n1: "resourceByType emptyCache widgetListGVK = None" by (simp add: emptyCache_def)
  have n2: "resourceByType emptyCache widgetGVK = None" by (simp add: emptyCache_def)
  have wl: "widgetGVK\<lparr>Kind := ''Widget'' @ ''List''\<rparr> = widgetListGVK"
    by (simp add: widgetGVK_def widgetListGVK_def)
  have w: "widgetGVK\<lparr>Kind := ''Widget''\<rparr> = widgetGVK" by (simp add: widgetGVK_def)
  let ?c = "emptyCache\<lparr>ctrace := ctrace emptyCache @ [RLock, RUnlock]\<rparr>"
  have b: "buildClient (itemGVK widgetGVK (IsListType widgetObject)) (config ?c) (codecs ?c)
             = Inr (RESTClient widgetGVK (Config ''https://apiserver''))"
    by (simp add: buildClient_def widget_item emptyCache_def)
  obtain out d where m: "RESTMappingFor (GroupKindOf widgetGVK) [gvkVersion widgetGVK] (mapper ?c) = (out, d)"
    by (cases "RESTMappingFor (GroupKindOf widgetGVK) [gvkVersion widgetGVK] (mapper ?c)")
  have "mapper ?c = readyMapper" by (simp add: emptyCache_def)
  with m readyMapper_widget_mapping have out: "out = Return (Inr (fst widgets))" by simp
  have plain: "fst (getResource buildClient widgetObject emptyCache) = Return (Inr widgetMeta)"
    unfolding getResource_miss[OF widget_key n2]
      getResourceMiss_ctor_ok[where ctor=buildClient and gvk=widgetGVK and obj=widgetObject
        and c="?c" and g=widgetGVK, OF b widget_item[symmetric] m]
    by (simp add: out widgetMeta_def)
  from list_value_resolves_item_type[where ctor=buildClient and gvk=widgetGVK and k="''Widget''"
      and c=emptyCache and listObj=widgetListObject and obj=widgetObject, unfolded wl w]
    widgetList_key l1 n1 widget_key l2 n2
  have "fst (getResource buildClient widgetListObject emptyCache)
          = fst (getResource buildClient widgetObject emptyCache)"
    by blast
  then show ?thesis using widgetList_key l1 n1 widget_key l2 n2 plain
    by (simp add: widgetMeta_def)
qed

text \<open>
  Claim C10. For a list value whose kind is exactly \<open>List\<close>, \<^verbatim>\<open>newResource\<close> does what it
  does for the empty kind: the constructor is called with the empty kind and, when it
  succeeds, the mapping lookup is called with the empty kind and decides the result;
  nothing rejects the call before. Stripping removes the four bytes of the suffix and
  nothing else: the kind the constructor sees, followed by \<open>List\<close>, is the kind given.
\<close>

theorem bare_List_kind_is_not_rejected:
  assumes "Kind gvk = ''List''"
  shows "newResource ctor gvk True c = newResource ctor (gvk\<lparr>Kind := []\<rparr>) False c
       \<and> ctrace (snd (newResource ctor gvk True c)) ! length (ctrace c)
           = RESTClientForGVKCall (gvk\<lparr>Kind := []\<rparr>)
       \<and> (\<forall>client.
            ctor (gvk\<lparr>Kind := []\<rparr>) (config c) (codecs c) = Inr client \<longrightarrow>
              ctrace (snd (newResource ctor gvk True c))
                = ctrace c @ [RESTClientForGVKCall (gvk\<lparr>Kind := []\<rparr>),
                              RESTMappingCall \<lparr>gkGroup = gvkGroup gvk, gkKind = []\<rparr> [gvkVersion gvk]]
              \<and> fst (newResource ctor gvk True c)
                  = map_outcome
                      (map_sum id (\<lambda>mp. \<lparr>Interface = client, rmGvk = gvk\<lparr>Kind := []\<rparr>,
                                          rmMapping = mp\<rparr>))
                      (fst (RESTMappingFor \<lparr>gkGroup = gvkGroup gvk, gkKind = []\<rparr>
                              [gvkVersion gvk] (mapper c))))
       \<and> (\<forall>t. HasSuffix (Kind t) ''List'' \<longrightarrow>
            (\<exists>k. Kind t = k @ ''List''
               \<and> ctrace (snd (newResource ctor t True c)) ! length (ctrace c)
                   = RESTClientForGVKCall (t\<lparr>Kind := k\<rparr>)))"
proof -
  have item: "itemGVK gvk True = gvk\<lparr>Kind := []\<rparr>"
    using assms by (simp add: itemGVK_def HasSuffix_def)
  have item0: "itemGVK (gvk\<lparr>Kind := []\<rparr>) False = gvk\<lparr>Kind := []\<rparr>"
    by (simp add: itemGVK_def)
  have eq: "newResource ctor gvk True c = newResource ctor (gvk\<lparr>Kind := []\<rparr>) False c"
    using assms by (simp add: newResource_def HasSuffix_def)
  have first: "ctrace (snd (newResource ctor gvk True c)) ! length (ctrace c)
           = RESTClientForGVKCall (gvk\<lparr>Kind := []\<rparr>)"
    using newResource_first_event[of ctor gvk True c] by (simp add: item)
  have ok: "ctrace (snd (newResource ctor gvk True c))
                = ctrace c @ [RESTClientForGVKCall (gvk\<lparr>Kind := []\<rparr>),
                              RESTMappingCall \<lparr>gkGroup = gvkGroup gvk, gkKind = []\<rparr> [gvkVersion gvk]]
              \<and> fst (newResource ctor gvk True c)
                  = map_outcome
                      (map_sum id (\<lambda>mp. \<lparr>Interface = client, rmGvk = gvk\<lparr>Kind := []\<rparr>,
                                          rmMapping = mp\<rparr>))
                      (fst (RESTMappingFor \<lparr>gkGroup = gvkGroup gvk, gkKind = []\<rparr>
                              [gvkVersion gvk] (mapper c)))"
    if a: "ctor (gvk\<lparr>Kind := []\<rparr>) (config c) (codecs c) = Inr client" for client
  proof -
    have a': "ctor (itemGVK gvk True) (config c) (codecs c) = Inr client" using a item by simp
    show ?thesis
      unfolding newResource_ctor_ok[where ctor=ctor and gvk=gvk and isList=True and c=c
          and client=client and g="gvk\<lparr>Kind := []\<rparr>", OF a' item[symmetric]]
      by (simp add: GroupKindOf_def)
  qed
  have exact: "\<exists>k. Kind t = k @ ''List''
               \<and> ctrace (snd (newResource ctor t True c)) ! length (ctrace c)
                   = RESTClientForGVKCall (t\<lparr>Kind := k\<rparr>)"
    if s: "HasSuffix (Kind t) ''List''" for t
  proof -
    let ?k = "take (length (Kind t) - 4) (Kind t)"
    have four: "length ''List'' = 4" by simp
    have d: "drop (length (Kind t) - 4) (Kind t) = ''List''"
      using s unfolding HasSuffix_def four by blast
    have "Kind t = ?k @ drop (length (Kind t) - 4) (Kind t)" by simp
    then have k: "Kind t = ?k @ ''List''" unfolding d .
    have "itemGVK t True = t\<lparr>Kind := ?k\<rparr>" using s by (simp add: itemGVK_def)
    then have "ctrace (snd (newResource ctor t True c)) ! length (ctrace c)
                   = RESTClientForGVKCall (t\<lparr>Kind := ?k\<rparr>)"
      using newResource_first_event[of ctor t True c] by simp
    with k show ?thesis by blast
  qed
  show ?thesis using eq first ok exact by blast
qed


lemma oddCache_mapping:
  "fst (RESTMappingFor \<lparr>gkGroup = ''example.com'', gkKind = []\<rparr> [''v1''] (mapper oddCache))
     = Return (Inr (fst kindless))"
proof -
  let ?d = "readyMapper\<lparr>staticMapper := Some (directory [kindless])\<rparr>"
  let ?f = "\<lambda>m. mRESTMapping m \<lparr>gkGroup = ''example.com'', gkKind = []\<rparr> [''v1'']"
  have m: "mapper oddCache = ?d" by (simp add: oddCache_def)
  have i: "init ?d = (None, ?d)" by (simp add: init_def readyMapper_def)
  have h2: "staticMapper ?d = Some (directory [kindless])" by simp
  have h3: "?f (directory [kindless]) = Inr (fst kindless)"
    by (simp add: directory_def kindless_def GroupKindOf_def)
  show ?thesis
    unfolding m RESTMappingFor_def i prod.case option.case
      checkAndReload_hit[where f="?f", OF h2 h3]
    by simp
qed

theorem bare_List_kind_is_not_rejected_witness:
  "Kind bareListGVK = ''List''
   \<and> buildClient (bareListGVK\<lparr>Kind := []\<rparr>) (config oddCache) (codecs oddCache)
       = Inr (RESTClient (bareListGVK\<lparr>Kind := []\<rparr>) (Config ''https://apiserver''))
   \<and> ctrace (snd (newResource buildClient bareListGVK True oddCache))
       = [RESTClientForGVKCall \<lparr>gvkGroup = ''example.com'', gvkVersion = ''v1'', Kind = []\<rparr>,
          RESTMappingCall \<lparr>gkGroup = ''example.com'', gkKind = []\<rparr> [''v1'']]
   \<and> fst (newResource buildClient bareListGVK True oddCache)
       = Return (Inr \<lparr>Interface = RESTClient (bareListGVK\<lparr>Kind := []\<rparr>) (Config ''https://apiserver''),
                      rmGvk = bareListGVK\<lparr>Kind := []\<rparr>, rmMapping = fst kindless\<rparr>)"
proof -
  have h: "Kind bareListGVK = ''List''" by (simp add: bareListGVK_def)
  have b: "buildClient (bareListGVK\<lparr>Kind := []\<rparr>) (config oddCache) (codecs oddCache)
       = Inr (RESTClient (bareListGVK\<lparr>Kind := []\<rparr>) (Config ''https://apiserver''))"
    by (simp add: buildClient_def oddCache_def emptyCache_def)
  have g: "gvkGroup bareListGVK = ''example.com''" "gvkVersion bareListGVK = ''v1''"
    by (simp_all add: bareListGVK_def)
  have e: "bareListGVK\<lparr>Kind := []\<rparr> = \<lparr>gvkGroup = ''example.com'', gvkVersion = ''v1'', Kind = []\<rparr>"
    by (simp add: bareListGVK_def)
  have t0: "ctrace oddCache = []" by (simp add: oddCache_def emptyCache_def)
  note T = bare_List_kind_is_not_rejected[OF h, of buildClient oddCache]
  have T3: "ctrace (snd (newResource buildClient bareListGVK True oddCache))
                = ctrace oddCache @ [RESTClientForGVKCall (bareListGVK\<lparr>Kind := []\<rparr>),
                     RESTMappingCall \<lparr>gkGroup = gvkGroup bareListGVK, gkKind = []\<rparr> [gvkVersion bareListGVK]]
              \<and> fst (newResource buildClient bareListGVK True oddCache)
                  = map_outcome
                      (map_sum id (\<lambda>mp. \<lparr>Interface = RESTClient (bareListGVK\<lparr>Kind := []\<rparr>) (Config ''https://apiserver''),
                                          rmGvk = bareListGVK\<lparr>Kind := []\<rparr>, rmMapping = mp\<rparr>))
                      (fst (RESTMappingFor \<lparr>gkGroup = gvkGroup bareListGVK, gkKind = []\<rparr>
                              [gvkVersion bareListGVK] (mapper oddCache)))"
    using T b by blast
  show ?thesis using h b T3 by (simp add: g t0 oddCache_mapping e)
qed

lemma getResource_miss_holds_lock:
  assumes "GVKForObject obj (scheme c) = Inr gvk"
    and "resourceByType c gvk = None"
    and "g = itemGVK gvk (IsListType obj)"
  shows "ctrace (snd (getResource ctor obj c)) =
           ctrace c @ [RLock, RUnlock, Lock, RESTClientForGVKCall g]
             @ (case ctor g (config c) (codecs c) of
                  Inl e \<Rightarrow> []
                | Inr client \<Rightarrow> [RESTMappingCall (GroupKindOf g) [gvkVersion g]])
             @ [Unlock]
       \<and> \<not> constructsOutsideLock False (drop (length (ctrace c)) (ctrace (snd (getResource ctor obj c))))
       \<and> (\<forall>t. fst (getResourceMiss ctor obj gvk (c\<lparr>resourceByType := t\<rparr>))
                = fst (getResourceMiss ctor obj gvk c))
       \<and> (\<forall>t r. fst (getResourceMiss ctor obj gvk (c\<lparr>resourceByType := t\<rparr>)) = Return (Inr r) \<longrightarrow>
             resourceByType (snd (getResourceMiss ctor obj gvk (c\<lparr>resourceByType := t\<rparr>)))
               = t(gvk \<mapsto> r))"
proof -
  note tr = getResource_miss_trace[OF assms, of ctor]
  have held: "\<not> constructsOutsideLock False
                 (drop (length (ctrace c)) (ctrace (snd (getResource ctor obj c))))"
    unfolding tr by simp
  have miss: "fst (getResourceMiss ctor obj gvk (c\<lparr>resourceByType := t\<rparr>))
                = fst (getResourceMiss ctor obj gvk c)
            \<and> (\<forall>r. fst (getResourceMiss ctor obj gvk (c\<lparr>resourceByType := t\<rparr>)) = Return (Inr r) \<longrightarrow>
                 resourceByType (snd (getResourceMiss ctor obj gvk (c\<lparr>resourceByType := t\<rparr>)))
                   = t(gvk \<mapsto> r))" for t
  proof (cases "ctor g (config c) (codecs c)")
    case (Inl e)
    have a: "ctor (itemGVK gvk (IsListType obj)) (config c) (codecs c) = Inl e"
      using Inl assms(3) by simp
    have a': "ctor (itemGVK gvk (IsListType obj)) (config (c\<lparr>resourceByType := t\<rparr>))
                (codecs (c\<lparr>resourceByType := t\<rparr>)) = Inl e"
      using a by simp
    show ?thesis
      unfolding getResourceMiss_ctor_fails[where ctor=ctor and gvk=gvk and obj=obj and c=c and e=e, OF a]
        getResourceMiss_ctor_fails[where ctor=ctor and gvk=gvk and obj=obj
          and c="c\<lparr>resourceByType := t\<rparr>" and e=e, OF a']
      by simp
  next
    case (Inr client)
    have a: "ctor (itemGVK gvk (IsListType obj)) (config c) (codecs c) = Inr client"
      using Inr assms(3) by simp
    have a': "ctor (itemGVK gvk (IsListType obj)) (config (c\<lparr>resourceByType := t\<rparr>))
                (codecs (c\<lparr>resourceByType := t\<rparr>)) = Inr client"
      using a by simp
    obtain out d where m: "RESTMappingFor (GroupKindOf g) [gvkVersion g] (mapper c) = (out, d)"
      by (cases "RESTMappingFor (GroupKindOf g) [gvkVersion g] (mapper c)")
    have m': "RESTMappingFor (GroupKindOf g) [gvkVersion g] (mapper (c\<lparr>resourceByType := t\<rparr>)) = (out, d)"
      using m by simp
    show ?thesis
      unfolding getResourceMiss_ctor_ok[where ctor=ctor and gvk=gvk and obj=obj and c=c
          and client=client and g=g, OF a assms(3) m]
        getResourceMiss_ctor_ok[where ctor=ctor and gvk=gvk and obj=obj
          and c="c\<lparr>resourceByType := t\<rparr>" and client=client and g=g, OF a' assms(3) m']
      by (simp split: outcome.splits sum.splits)
  qed
  show ?thesis using tr held miss by blast
qed

text \<open>
  Claim C2, evaluated where it fails. The cache is empty and the constructor succeeds. The
  claim has the constructor called while no lock of the table is held. The call takes the
  exclusive lock first and releases it last: the constructor and the mapping lookup of the
  mapper both run between \<open>Lock\<close> and \<open>Unlock\<close>.
\<close>

theorem miss_constructs_under_exclusive_lock:
  "GVKForObject widgetObject (scheme emptyCache) = Inr widgetGVK
   \<and> resourceByType emptyCache widgetGVK = None
   \<and> ctrace (snd (getResource buildClient widgetObject emptyCache))
       = [RLock, RUnlock, Lock, RESTClientForGVKCall widgetGVK,
          RESTMappingCall (GroupKindOf widgetGVK) [gvkVersion widgetGVK], Unlock]
   \<and> \<not> constructsOutsideLock False (ctrace (snd (getResource buildClient widgetObject emptyCache)))"
proof -
  have n2: "resourceByType emptyCache widgetGVK = None" by (simp add: emptyCache_def)
  have t0: "ctrace emptyCache = []" by (simp add: emptyCache_def)
  have b: "buildClient widgetGVK (config emptyCache) (codecs emptyCache)
             = Inr (RESTClient widgetGVK (Config ''https://apiserver''))"
    by (simp add: buildClient_def emptyCache_def)
  have tr: "ctrace (snd (getResource buildClient widgetObject emptyCache))
       = [RLock, RUnlock, Lock, RESTClientForGVKCall widgetGVK,
          RESTMappingCall (GroupKindOf widgetGVK) [gvkVersion widgetGVK], Unlock]"
    unfolding getResource_miss_trace[OF widget_key n2 widget_item[symmetric], of buildClient]
    by (simp add: b t0)
  show ?thesis unfolding tr using widget_key n2 by simp
qed

end
